theory Spec2Isabelle
  imports Complex_Main
begin

section \<open>Data model\<close>

text \<open>
  The embedding follows \<^verbatim>\<open>src/services/quizSessionService.ts\<close>,
  \<^verbatim>\<open>src/services/quizService.ts\<close>, \<^verbatim>\<open>src/services/notificationService.ts\<close> and the
  Mongoose models they use. Object ids are their hexadecimal strings. A \<^verbatim>\<open>number\<close> that
  a request or a document of a quiz carries is the rational that its literal denotes;
  JavaScript holds it as the nearest double (\<^verbatim>\<open>fl\<close>, the identity on a rational that is a
  double), and what the services compute from such numbers is a \<^verbatim>\<open>double\<close>, with the
  rounding and the special values of IEEE 754.
  Every collection of the document store is the list of its documents, and a service
  takes the store and returns its result together with the store it leaves behind, so
  that a write made before an exception stays visible.
\<close>

type_synonym oid = string
type_synonym number = rat

subsection \<open>IEEE 754 doubles\<close>

text \<open>The values of the 64-bit binary format: the finite ones by their rational value,
  \<^verbatim>\<open>Finite 0\<close> being \<^verbatim>\<open>+0\<close>, then \<^verbatim>\<open>-0\<close>, the two infinities and \<^verbatim>\<open>NaN\<close>.\<close>

datatype double = Finite rat | NegZero | PosInfinity | NegInfinity | NaN

definition pow2 :: "int \<Rightarrow> rat" where
  "pow2 e = (if 0 \<le> e then 2 ^ nat e else 1 / 2 ^ nat (- e))"

text \<open>The exponent of a positive rational \<^verbatim>\<open>r\<close>: the \<^verbatim>\<open>e\<close> with \<^verbatim>\<open>2^e <= r < 2^(e+1)\<close>, kept
  between the exponent of the subnormal numbers and the first exponent that overflows.\<close>

function exponent_up :: "rat \<Rightarrow> int \<Rightarrow> int" where
  "exponent_up r e = (if e < 1024 \<and> pow2 (e + 1) \<le> r then exponent_up r (e + 1) else e)"
  by pat_completeness auto
termination by (relation "measure (\<lambda>(r, e). nat (1024 - e))") auto

function exponent_down :: "rat \<Rightarrow> int \<Rightarrow> int" where
  "exponent_down r e = (if - 1022 < e \<and> r < pow2 e then exponent_down r (e - 1) else e)"
  by pat_completeness auto
termination by (relation "measure (\<lambda>(r, e). nat (e + 1022))") auto

declare exponent_up.simps [simp del] exponent_down.simps [simp del]

definition exponent :: "rat \<Rightarrow> int" where
  "exponent r = (if 1 \<le> r then exponent_up r 0 else exponent_down r 0)"

definition round_half_even :: "rat \<Rightarrow> int" where
  "round_half_even x =
     (let f = \<lfloor>x\<rfloor>; d = x - of_int f
      in if d < 1 / 2 then f else if 1 / 2 < d then f + 1 else if even f then f else f + 1)"

text \<open>Rounding to the nearest double, ties to the even significand of 53 bits; a result
  of \<^verbatim>\<open>2^1024\<close> or more is \<^verbatim>\<open>Infinity\<close>.\<close>

definition round_pos :: "rat \<Rightarrow> double" where
  "round_pos r =
     (let q = pow2 (exponent r - 52); v = of_int (round_half_even (r / q)) * q
      in if pow2 1024 \<le> v then PosInfinity else Finite v)"

fun js_neg :: "double \<Rightarrow> double" where
  "js_neg (Finite r) = (if r = 0 then NegZero else Finite (- r))"
| "js_neg NegZero = Finite 0"
| "js_neg PosInfinity = NegInfinity"
| "js_neg NegInfinity = PosInfinity"
| "js_neg NaN = NaN"

text \<open>The double nearest to a rational: the rounding of an exact result, and the value
  that JavaScript holds for a numeric literal.\<close>

definition fl :: "rat \<Rightarrow> double" where
  "fl r = (if r = 0 then Finite 0 else if 0 < r then round_pos r else js_neg (round_pos (- r)))"

fun is_nan :: "double \<Rightarrow> bool" where
  "is_nan NaN = True"
| "is_nan x = False"

fun is_inf :: "double \<Rightarrow> bool" where
  "is_inf PosInfinity = True"
| "is_inf NegInfinity = True"
| "is_inf x = False"

fun is_zero :: "double \<Rightarrow> bool" where
  "is_zero (Finite r) = (r = 0)"
| "is_zero NegZero = True"
| "is_zero x = False"

text \<open>The sign bit.\<close>

fun is_neg :: "double \<Rightarrow> bool" where
  "is_neg (Finite r) = (r < 0)"
| "is_neg NegZero = True"
| "is_neg NegInfinity = True"
| "is_neg x = False"

fun value_of :: "double \<Rightarrow> rat" where
  "value_of (Finite r) = r"
| "value_of x = 0"

definition signed_zero :: "bool \<Rightarrow> double" where
  "signed_zero neg = (if neg then NegZero else Finite 0)"

definition signed_inf :: "bool \<Rightarrow> double" where
  "signed_inf neg = (if neg then NegInfinity else PosInfinity)"

text \<open>\<^verbatim>\<open>x + y\<close>\<close>

fun js_add :: "double \<Rightarrow> double \<Rightarrow> double" where
  "js_add NaN y = NaN"
| "js_add x NaN = NaN"
| "js_add PosInfinity NegInfinity = NaN"
| "js_add NegInfinity PosInfinity = NaN"
| "js_add PosInfinity y = PosInfinity"
| "js_add x PosInfinity = PosInfinity"
| "js_add NegInfinity y = NegInfinity"
| "js_add x NegInfinity = NegInfinity"
| "js_add NegZero y = y"
| "js_add x NegZero = x"
| "js_add (Finite a) (Finite b) = fl (a + b)"

text \<open>\<^verbatim>\<open>x * y\<close>\<close>

definition js_mul :: "double \<Rightarrow> double \<Rightarrow> double" where
  "js_mul x y =
     (if is_nan x \<or> is_nan y then NaN
      else if (is_inf x \<and> is_zero y) \<or> (is_zero x \<and> is_inf y) then NaN
      else if is_inf x \<or> is_inf y then signed_inf (is_neg x \<noteq> is_neg y)
      else if is_zero x \<or> is_zero y then signed_zero (is_neg x \<noteq> is_neg y)
      else fl (value_of x * value_of y))"

text \<open>\<^verbatim>\<open>x / y\<close>\<close>

definition js_div :: "double \<Rightarrow> double \<Rightarrow> double" where
  "js_div x y =
     (if is_nan x \<or> is_nan y then NaN
      else if (is_inf x \<and> is_inf y) \<or> (is_zero x \<and> is_zero y) then NaN
      else if is_inf x \<or> is_zero y then signed_inf (is_neg x \<noteq> is_neg y)
      else if is_zero x \<or> is_inf y then signed_zero (is_neg x \<noteq> is_neg y)
      else fl (value_of x / value_of y))"

text \<open>\<^verbatim>\<open>x < y\<close> and \<^verbatim>\<open>x >= y\<close>: every comparison with \<^verbatim>\<open>NaN\<close> is false, the two zeros are
  equal.\<close>

definition js_lt :: "double \<Rightarrow> double \<Rightarrow> bool" where
  "js_lt x y \<longleftrightarrow>
     \<not> is_nan x \<and> \<not> is_nan y \<and>
     (if x = NegInfinity then y \<noteq> NegInfinity
      else if y = PosInfinity then x \<noteq> PosInfinity
      else if x = PosInfinity \<or> y = NegInfinity then False
      else value_of x < value_of y)"

definition js_ge :: "double \<Rightarrow> double \<Rightarrow> bool" where
  "js_ge x y \<longleftrightarrow> \<not> is_nan x \<and> \<not> is_nan y \<and> \<not> js_lt x y"

datatype UserRole = STUDENT | TEACHER | ADMIN | MANAGER
datatype AvailableLanguage = FR | EN | AR | ES
datatype QuestionType = QCM | TRUE_FALSE | CALCUL
datatype QuizType = FORMATIVE | SUMMATIVE | REVISION
datatype NotificationType = NEW_ENROLLMENT_PENDING | ENROLLMENT_STATUS_CHANGED | QUIZ_GRADED
datatype NotificationStatus = UNREAD | READ
datatype Difficulty = easy | medium | hard
datatype PassStatus = passed | failed

datatype ILocalizedString =
  ILocalizedString (ls_fr: string) (ls_en: string) (ls_ar: "string option") (ls_es: "string option")

datatype ILocalizedChoice =
  ILocalizedChoice (lc_fr: string) (lc_en: "string option") (lc_ar: "string option")
    (lc_es: "string option")

text \<open>Every \<^verbatim>\<open>throw new ApiError(message, statusCode)\<close> of the modelled services, the errors
  of the controller of a submission, and the two exceptions that are not an \<^verbatim>\<open>ApiError\<close>: the Mongoose validation error of an update
  and the \<^verbatim>\<open>TypeError\<close> of a property read on \<^verbatim>\<open>null\<close>.\<close>

datatype error =
    UserNotFound
  | QuizNotFound
  | QuizNotAccessible
  | AttemptsExceeded number
  | InvalidQuiz
  | SessionValidationError
  | SessionNotFound
  | NotAuthorizedToSubmit
  | AlreadyCompleted
  | InvalidDuration
  | AssociatedQuizNotFound
  | InvalidQuestion oid
  | UpdateValidationError
  | SessionUpdateFailed
  | UncaughtTypeError
  | InvalidRecipientId
  | RecipientNotFound
  | CreatorNotFound
  | StudentsOnlyRevision
  | TeachersNoRevision
  | TrainingNotFound
  | GenerationParamsRequired
  | ChapterIdsRequired
  | NumberMustBePositive
  | InsufficientQuestions nat nat
  | SelectedIdsRequired
  | SelectedNotFound
  | MethodRequired
  | QuizValidationError
  | InvalidQuizIdFormat
  | NotAuthorizedToUpdate
  | SensitiveFieldsOfPublished
  | QuizNeedsQuestion
  | InvalidQuestionIds
  | NotAuthorizedToPublish
  | RevisionCannotBePublished
  | AlreadyPublished
  | AlreadyUnpublished
  | PublishFailed
  | QuizNotFoundOrDeleted
  | PublishedDeleteForbidden
  | NotAuthorizedToDelete
  | AuthenticationRequired
  | OnlyStudents
  | InvalidSessionIdFormat
  | ResponsesRequired

fun statusCode :: "error \<Rightarrow> nat" where
  "statusCode UserNotFound = 404"
| "statusCode QuizNotFound = 404"
| "statusCode QuizNotAccessible = 403"
| "statusCode (AttemptsExceeded _) = 403"
| "statusCode SessionNotFound = 404"
| "statusCode NotAuthorizedToSubmit = 403"
| "statusCode AssociatedQuizNotFound = 500"
| "statusCode UpdateValidationError = 500"
| "statusCode SessionUpdateFailed = 500"
| "statusCode UncaughtTypeError = 500"
| "statusCode RecipientNotFound = 404"
| "statusCode CreatorNotFound = 404"
| "statusCode StudentsOnlyRevision = 403"
| "statusCode TeachersNoRevision = 403"
| "statusCode TrainingNotFound = 404"
| "statusCode NotAuthorizedToUpdate = 403"
| "statusCode SensitiveFieldsOfPublished = 403"
| "statusCode NotAuthorizedToPublish = 403"
| "statusCode PublishFailed = 500"
| "statusCode QuizNotFoundOrDeleted = 404"
| "statusCode PublishedDeleteForbidden = 403"
| "statusCode NotAuthorizedToDelete = 403"
| "statusCode AuthenticationRequired = 401"
| "statusCode OnlyStudents = 403"
| "statusCode _ = 400"

record IUser =
  u_id :: oid
  u_username :: string
  u_role :: UserRole

record IChoice =
  c_text :: ILocalizedChoice
  c_isCorrect :: bool
  c_choiceMediaType :: "string option"
  c_choiceMediaUrl :: "string option"
  c_choiceMediaAltText :: "string option"

record IQuestion =
  q_id :: oid
  q_chapter :: oid
  q_text :: ILocalizedString
  q_mediaType :: "string option"
  q_mediaUrl :: "string option"
  q_mediaAltText :: "string option"
  q_type :: QuestionType
  q_choices :: "IChoice list option"
  q_correctAnswerFormula :: "string option"
  q_explanation :: "ILocalizedString option"
  q_difficulty :: Difficulty
  q_tags :: "string list"

record IQuestionWithScore =
  questionId :: oid
  score :: number

record IQuiz =
  qz_id :: oid
  qz_training :: oid
  qz_title :: ILocalizedString
  qz_description :: "ILocalizedString option"
  qz_thumbnailUrl :: "string option"
  qz_creator :: oid
  qz_quizType :: QuizType
  qz_deadline :: "nat option"
  qz_isPublished :: bool
  qz_publishedAt :: "nat option"
  qz_durationMinutes :: "number option"
  qz_questions :: "IQuestionWithScore list"
  qz_globalScore :: number
  qz_allowedAttempts :: "number option"
  qz_tags :: "string list"
  qz_isPublic :: bool
  qz_slug :: string

record ITraining =
  t_id :: oid
  t_teachers :: "oid list"
  t_quizzes :: "oid list"

record INotification =
  n_recipient :: oid
  n_type :: NotificationType
  n_message :: string
  n_relatedEntityId :: "oid option"
  n_relatedEntityType :: "string option"
  n_status :: NotificationStatus

subsection \<open>Documents as the client receives them\<close>

text \<open>A value sent to the client is a tree of named fields, so that the presence of a
  field in it can be stated.\<close>

datatype jvalue =
    JUndefined
  | JNull
  | JBool bool
  | JNum number
  | JStr string
  | JId oid
  | JArr "jvalue list"
  | JObj "(string \<times> jvalue) list"

fun field_names :: "jvalue \<Rightarrow> string list" where
  "field_names (JArr vs) = concat (map field_names vs)"
| "field_names (JObj kvs) = concat (map (\<lambda>(k, v). k # field_names v) kvs)"
| "field_names _ = []"

definition opt_field :: "string \<Rightarrow> ('a \<Rightarrow> jvalue) \<Rightarrow> 'a option \<Rightarrow> (string \<times> jvalue) list" where
  "opt_field k f x = (case x of None \<Rightarrow> [] | Some v \<Rightarrow> [(k, f v)])"

definition ILocalizedString_doc :: "ILocalizedString \<Rightarrow> jvalue" where
  "ILocalizedString_doc t =
     JObj ([(''fr'', JStr (ls_fr t)), (''en'', JStr (ls_en t))]
           @ opt_field ''ar'' JStr (ls_ar t) @ opt_field ''es'' JStr (ls_es t))"

definition ILocalizedChoice_doc :: "ILocalizedChoice \<Rightarrow> jvalue" where
  "ILocalizedChoice_doc t =
     JObj ([(''fr'', JStr (lc_fr t))] @ opt_field ''en'' JStr (lc_en t)
           @ opt_field ''ar'' JStr (lc_ar t) @ opt_field ''es'' JStr (lc_es t))"

fun QuestionType_str :: "QuestionType \<Rightarrow> string" where
  "QuestionType_str QCM = ''QCM''"
| "QuestionType_str TRUE_FALSE = ''TrueFalse''"
| "QuestionType_str CALCUL = ''Calculation''"

fun Difficulty_str :: "Difficulty \<Rightarrow> string" where
  "Difficulty_str easy = ''easy''"
| "Difficulty_str medium = ''medium''"
| "Difficulty_str hard = ''hard''"

text \<open>A question and a choice as the store holds them (\<^verbatim>\<open>QuestionSchema\<close>,
  \<^verbatim>\<open>ChoiceSchema\<close>): every field of the schema that is set.\<close>

definition IChoice_doc :: "IChoice \<Rightarrow> jvalue" where
  "IChoice_doc c =
     JObj ([(''text'', ILocalizedChoice_doc (c_text c)), (''isCorrect'', JBool (c_isCorrect c))]
           @ opt_field ''choiceMediaType'' JStr (c_choiceMediaType c)
           @ opt_field ''choiceMediaUrl'' JStr (c_choiceMediaUrl c)
           @ opt_field ''choiceMediaAltText'' JStr (c_choiceMediaAltText c))"

definition IQuestion_doc :: "IQuestion \<Rightarrow> jvalue" where
  "IQuestion_doc q =
     JObj ([(''_id'', JId (q_id q)), (''chapter'', JId (q_chapter q)),
            (''text'', ILocalizedString_doc (q_text q))]
           @ opt_field ''mediaType'' JStr (q_mediaType q)
           @ opt_field ''mediaUrl'' JStr (q_mediaUrl q)
           @ opt_field ''mediaAltText'' JStr (q_mediaAltText q)
           @ [(''type'', JStr (QuestionType_str (q_type q)))]
           @ opt_field ''choices'' (\<lambda>cs. JArr (map IChoice_doc cs)) (q_choices q)
           @ opt_field ''correctAnswerFormula'' JStr (q_correctAnswerFormula q)
           @ opt_field ''explanation'' ILocalizedString_doc (q_explanation q)
           @ [(''difficulty'', JStr (Difficulty_str (q_difficulty q))),
              (''tags'', JArr (map JStr (q_tags q)))])"

text \<open>The inclusive projection of \<^verbatim>\<open>populate({ select: ... })\<close>: \<^verbatim>\<open>_id\<close> and the paths named
  whole are kept as they are; of a path named with a sub-field (\<^verbatim>\<open>choices.text\<close>) only the
  named sub-fields of the sub-document, or of each element of the array, are kept.\<close>

definition keep_fields :: "string list \<Rightarrow> jvalue \<Rightarrow> jvalue" where
  "keep_fields ks v = (case v of JObj kvs \<Rightarrow> JObj (filter (\<lambda>kv. fst kv \<in> set ks) kvs) | _ \<Rightarrow> v)"

definition select_sub :: "string list \<Rightarrow> jvalue \<Rightarrow> jvalue" where
  "select_sub ks v = (case v of JArr vs \<Rightarrow> JArr (map (keep_fields ks) vs) | _ \<Rightarrow> keep_fields ks v)"

definition select_entry ::
  "string list \<Rightarrow> (string \<times> string list) list \<Rightarrow> string \<times> jvalue \<Rightarrow> (string \<times> jvalue) list" where
  "select_entry whole nested kv =
     (if fst kv = ''_id'' \<or> fst kv \<in> set whole then [kv]
      else (case map_of nested (fst kv) of
              Some ks \<Rightarrow> [(fst kv, select_sub ks (snd kv))]
            | None \<Rightarrow> []))"

definition select_fields :: "string list \<Rightarrow> (string \<times> string list) list \<Rightarrow> jvalue \<Rightarrow> jvalue" where
  "select_fields whole nested v =
     (case v of JObj kvs \<Rightarrow> JObj (concat (map (select_entry whole nested) kvs)) | _ \<Rightarrow> v)"

text \<open>\<^verbatim>\<open>select: 'text type choices.text difficulty tags'\<close>\<close>

definition select_client_question :: "jvalue \<Rightarrow> jvalue" where
  "select_client_question =
     select_fields [''text'', ''type'', ''difficulty'', ''tags''] [(''choices'', [''text''])]"

subsection \<open>Quiz sessions\<close>

datatype AnswerValue = Text string | TextList "string list" | Number int

text \<open>The \<^verbatim>\<open>question\<close> of a response: the reference the store holds, the populated view,
  or \<^verbatim>\<open>null\<close> when the referenced question no longer exists.\<close>

datatype question_ref = QRef oid | QView jvalue | QNull

record IQuestionResponse =
  r_question :: question_ref
  r_userAnswer :: AnswerValue
  r_isCorrect :: bool
  r_scoreEarned :: number
  r_timeTakenSeconds :: number

record IQuizSession =
  s_id :: oid
  s_user :: oid
  s_quiz :: oid
  s_quizDate :: nat
  s_totalScoreEarned :: double
  s_maxPossibleScore :: double
  s_quizGlobalScore :: number
  s_finalCalculatedScore :: double
  s_durationSeconds :: number
  s_responses :: "IQuestionResponse list"
  s_language :: AvailableLanguage
  s_isCompleted :: bool
  s_passStatus :: "PassStatus option"
  s_attemptNumber :: nat

record db =
  User_docs :: "IUser list"
  Question_docs :: "IQuestion list"
  Quiz_docs :: "IQuiz list"
  Training_docs :: "ITraining list"
  QuizSession_docs :: "IQuizSession list"
  Notification_docs :: "INotification list"

definition findById :: "('a \<Rightarrow> oid) \<Rightarrow> 'a list \<Rightarrow> oid \<Rightarrow> 'a option" where
  "findById ident docs i = find (\<lambda>d. ident d = i) docs"

text \<open>\<^verbatim>\<open>QuizSession.countDocuments({ user, quiz })\<close>\<close>

definition countDocuments :: "db \<Rightarrow> oid \<Rightarrow> oid \<Rightarrow> nat" where
  "countDocuments d userId quizId =
     length (filter (\<lambda>s. s_user s = userId \<and> s_quiz s = quizId) (QuizSession_docs d))"

section \<open>Starting a quiz session\<close>

record StartQuizSessionData =
  sd_user :: oid
  sd_quizId :: oid
  sd_language :: AvailableLanguage

text \<open>\<^verbatim>\<open>populate('questions.questionId')\<close>: every entry of the manifest with the question
  its id refers to, or \<^verbatim>\<open>null\<close> when there is none.\<close>

definition populate_questions :: "db \<Rightarrow> IQuestionWithScore list \<Rightarrow> (IQuestion option \<times> number) list" where
  "populate_questions d items =
     map (\<lambda>qItem. (findById q_id (Question_docs d) (questionId qItem), score qItem)) items"

definition clientChoices :: "IQuestion \<Rightarrow> jvalue" where
  "clientChoices questionDoc =
     (case q_choices questionDoc of
        Some choices \<Rightarrow>
          if q_type questionDoc = QCM
          then JArr (map (\<lambda>choice. JObj [(''text'', ILocalizedChoice_doc (c_text choice))]) choices)
          else JUndefined
      | None \<Rightarrow> JUndefined)"

definition clientQuestion :: "IQuestion \<Rightarrow> jvalue" where
  "clientQuestion questionDoc =
     JObj [(''_id'', JId (q_id questionDoc)),
           (''text'', ILocalizedString_doc (q_text questionDoc)),
           (''type'', JStr (QuestionType_str (q_type questionDoc))),
           (''choices'', clientChoices questionDoc),
           (''difficulty'', JStr (Difficulty_str (q_difficulty questionDoc))),
           (''tags'', JArr (map JStr (q_tags questionDoc)))]"

definition initialResponse :: "IQuestion \<Rightarrow> IQuestionResponse" where
  "initialResponse questionDoc =
     \<lparr> r_question = QView (clientQuestion questionDoc), r_userAnswer = Text [],
       r_isCorrect = False, r_scoreEarned = 0, r_timeTakenSeconds = 0 \<rparr>"

text \<open>The loop over \<^verbatim>\<open>quiz.questions\<close>, with its two accumulators; an entry whose question
  is missing is skipped (\<^verbatim>\<open>continue\<close>). \<^verbatim>\<open>maxPossibleScore += qItem.score\<close> is the addition of
  doubles.\<close>

fun session_loop ::
  "(IQuestion option \<times> number) list \<Rightarrow> double \<Rightarrow> IQuestionResponse list
     \<Rightarrow> double \<times> IQuestionResponse list" where
  "session_loop [] maxPossibleScore initialResponses = (maxPossibleScore, initialResponses)"
| "session_loop ((None, sc) # rest) maxPossibleScore initialResponses =
     session_loop rest maxPossibleScore initialResponses"
| "session_loop ((Some questionDoc, sc) # rest) maxPossibleScore initialResponses =
     session_loop rest (js_add maxPossibleScore (fl sc))
       (initialResponses @ [initialResponse questionDoc])"

text \<open>The validators of \<^verbatim>\<open>QuestionResponseSchema\<close> and \<^verbatim>\<open>QuizSessionSchema\<close> (the \<^verbatim>\<open>min\<close>
  of each number; \<^verbatim>\<open>userAnswer\<close> is of type \<^verbatim>\<open>Mixed\<close>, whose \<^verbatim>\<open>required\<close> accepts the empty
  string).\<close>

definition QuestionResponseSchema_valid :: "IQuestionResponse \<Rightarrow> bool" where
  "QuestionResponseSchema_valid r \<longleftrightarrow> 0 \<le> r_scoreEarned r \<and> 0 \<le> r_timeTakenSeconds r"

definition QuizSessionSchema_valid :: "IQuizSession \<Rightarrow> bool" where
  "QuizSessionSchema_valid s \<longleftrightarrow>
     js_ge (s_totalScoreEarned s) (Finite 0) \<and> js_ge (s_maxPossibleScore s) (Finite 1) \<and>
     1 \<le> s_quizGlobalScore s \<and> js_ge (s_finalCalculatedScore s) (Finite 0) \<and>
     0 \<le> s_durationSeconds s \<and>
     list_all QuestionResponseSchema_valid (s_responses s) \<and> 1 \<le> s_attemptNumber s"

text \<open>The \<^verbatim>\<open>question\<close> path of a response is an \<^verbatim>\<open>ObjectId\<close> in the schema: an embedded
  object is cast to its \<^verbatim>\<open>_id\<close> when the session is saved.\<close>

fun cast_question :: "question_ref \<Rightarrow> question_ref" where
  "cast_question (QView (JObj kvs)) = (case map_of kvs ''_id'' of Some (JId i) \<Rightarrow> QRef i | _ \<Rightarrow> QNull)"
| "cast_question (QView _) = QNull"
| "cast_question r = r"

definition cast_response :: "IQuestionResponse \<Rightarrow> IQuestionResponse" where
  "cast_response r = r\<lparr> r_question := cast_question (r_question r) \<rparr>"

text \<open>\<^verbatim>\<open>populate({ path: 'responses.question', select: 'text type choices.text difficulty tags' })\<close>\<close>

definition populate_question :: "db \<Rightarrow> question_ref \<Rightarrow> question_ref" where
  "populate_question d r =
     (case r of
        QRef i \<Rightarrow> (case findById q_id (Question_docs d) i of
                     Some q \<Rightarrow> QView (select_client_question (IQuestion_doc q))
                   | None \<Rightarrow> QNull)
      | _ \<Rightarrow> r)"

definition populate_session :: "db \<Rightarrow> IQuizSession \<Rightarrow> IQuizSession" where
  "populate_session d s =
     s\<lparr> s_responses := map (\<lambda>r. r\<lparr> r_question := populate_question d (r_question r) \<rparr>) (s_responses s) \<rparr>"

definition attempts_exceeded :: "db \<Rightarrow> IQuiz \<Rightarrow> oid \<Rightarrow> oid \<Rightarrow> bool" where
  "attempts_exceeded d quiz userId quizId =
     (case qz_allowedAttempts quiz of
        None \<Rightarrow> False
      | Some allowed \<Rightarrow> allowed \<le> of_nat (countDocuments d userId quizId))"

definition newSession ::
  "db \<Rightarrow> oid \<Rightarrow> nat \<Rightarrow> StartQuizSessionData \<Rightarrow> IQuiz \<Rightarrow> double \<Rightarrow> IQuestionResponse list
     \<Rightarrow> IQuizSession" where
  "newSession d newId now data quiz maxPossibleScore initialResponses =
     \<lparr> s_id = newId, s_user = sd_user data, s_quiz = sd_quizId data, s_quizDate = now,
       s_totalScoreEarned = Finite 0, s_maxPossibleScore = maxPossibleScore,
       s_quizGlobalScore = qz_globalScore quiz, s_finalCalculatedScore = Finite 0,
       s_durationSeconds = 0, s_responses = initialResponses, s_language = sd_language data,
       s_isCompleted = False, s_passStatus = None,
       s_attemptNumber = countDocuments d (sd_user data) (sd_quizId data) + 1 \<rparr>"

text \<open>\<^verbatim>\<open>newSession.save()\<close>, then \<^verbatim>\<open>QuizSession.findById(savedSession._id).populate(...)\<close>.
  \<^verbatim>\<open>newId\<close> is the id the new document is given and \<^verbatim>\<open>now\<close> the date of the call. The saved
  document is in the collection, so the read finds a document; the last branch is there
  for totality only.\<close>

definition save_and_return :: "db \<Rightarrow> IQuizSession \<Rightarrow> (error + IQuizSession) \<times> db" where
  "save_and_return d s =
     (if \<not> QuizSessionSchema_valid s then (Inl SessionValidationError, d)
      else
        let savedSession = s\<lparr> s_responses := map cast_response (s_responses s) \<rparr>;
            d' = d\<lparr> QuizSession_docs := QuizSession_docs d @ [savedSession] \<rparr>
        in (case findById s_id (QuizSession_docs d') (s_id savedSession) of
              Some found \<Rightarrow> (Inr (populate_session d' found), d')
            | None \<Rightarrow> (Inl SessionNotFound, d')))"

text \<open>The guard of step 2: a student may start a quiz that is not published only when it is
  their own revision quiz.\<close>

definition not_accessible :: "IUser \<Rightarrow> IQuiz \<Rightarrow> oid \<Rightarrow> bool" where
  "not_accessible user quiz userId \<longleftrightarrow>
     (let isCreator = (qz_creator quiz = userId) in
      u_role user = STUDENT \<and> \<not> qz_isPublished quiz
      \<and> \<not> (isCreator \<and> qz_quizType quiz = REVISION))"

definition startQuizSessionService ::
  "db \<Rightarrow> oid \<Rightarrow> nat \<Rightarrow> StartQuizSessionData \<Rightarrow> (error + IQuizSession) \<times> db" where
  "startQuizSessionService d newId now data =
     (case findById u_id (User_docs d) (sd_user data) of
        None \<Rightarrow> (Inl UserNotFound, d)
      | Some user \<Rightarrow>
     (case findById qz_id (Quiz_docs d) (sd_quizId data) of
        None \<Rightarrow> (Inl QuizNotFound, d)
      | Some quiz \<Rightarrow>
          if not_accessible user quiz (sd_user data) then (Inl QuizNotAccessible, d)
          else if attempts_exceeded d quiz (sd_user data) (sd_quizId data)
          then (Inl (AttemptsExceeded (case qz_allowedAttempts quiz of Some a \<Rightarrow> a | None \<Rightarrow> 0)), d)
          else
            (case session_loop (populate_questions d (qz_questions quiz)) (Finite 0) [] of
               (maxPossibleScore, initialResponses) \<Rightarrow>
                 if is_zero maxPossibleScore then (Inl InvalidQuiz, d)
                 else save_and_return d
                        (newSession d newId now data quiz maxPossibleScore initialResponses))))"

section \<open>Submitting a quiz session\<close>

record SubmittedResponse =
  sr_question :: oid
  sr_userAnswer :: AnswerValue
  sr_timeTakenSeconds :: "number option"

record SubmitQuizSessionData =
  sub_responses :: "SubmittedResponse list"
  sub_durationSeconds :: number

subsection \<open>JavaScript helpers\<close>

text \<open>\<^verbatim>\<open>a || b\<close> on strings: \<^verbatim>\<open>undefined\<close> and the empty string are falsy.\<close>

definition js_or :: "string option \<Rightarrow> string option \<Rightarrow> string option" where
  "js_or a b = (case a of Some (c # cs) \<Rightarrow> a | _ \<Rightarrow> b)"

text \<open>\<^verbatim>\<open>text[language]\<close> on a localized choice text; \<^verbatim>\<open>None\<close> is \<^verbatim>\<open>undefined\<close>.\<close>

fun text_at :: "ILocalizedChoice \<Rightarrow> AvailableLanguage \<Rightarrow> string option" where
  "text_at t FR = Some (lc_fr t)"
| "text_at t EN = lc_en t"
| "text_at t AR = lc_ar t"
| "text_at t ES = lc_es t"

text \<open>\<^verbatim>\<open>toString()\<close>: a string is itself, an array is its elements joined by commas, a
  number (an integer here) is its decimal numeral.\<close>

fun nat_toString :: "nat \<Rightarrow> string" where
  "nat_toString n =
     (if n < 10 then [''0123456789'' ! n]
      else nat_toString (n div 10) @ [''0123456789'' ! (n mod 10)])"

definition int_toString :: "int \<Rightarrow> string" where
  "int_toString i = (if i < 0 then CHR ''-'' # nat_toString (nat (- i)) else nat_toString (nat i))"

fun join_comma :: "string list \<Rightarrow> string" where
  "join_comma [] = []"
| "join_comma [x] = x"
| "join_comma (x # y # ys) = x @ CHR '','' # join_comma (y # ys)"

fun toString :: "AnswerValue \<Rightarrow> string" where
  "toString (Text s) = s"
| "toString (TextList xs) = join_comma xs"
| "toString (Number i) = int_toString i"

subsection \<open>Grading\<close>

text \<open>\<^verbatim>\<open>quizQuestionsMap\<close>: the populated entries of the manifest by question id; an entry
  whose question is missing is left out, a later entry of the same id replaces an earlier
  one (\<^verbatim>\<open>Map.set\<close>).\<close>

fun quizQuestionsMap_set ::
  "(IQuestion option \<times> number) list \<Rightarrow> (oid \<rightharpoonup> IQuestion \<times> number) \<Rightarrow> (oid \<rightharpoonup> IQuestion \<times> number)" where
  "quizQuestionsMap_set [] m = m"
| "quizQuestionsMap_set ((None, sc) # rest) m = quizQuestionsMap_set rest m"
| "quizQuestionsMap_set ((Some q, sc) # rest) m = quizQuestionsMap_set rest (m(q_id q \<mapsto> (q, sc)))"

definition quizQuestionsMap :: "(IQuestion option \<times> number) list \<Rightarrow> (oid \<rightharpoonup> IQuestion \<times> number)" where
  "quizQuestionsMap manifest = quizQuestionsMap_set manifest Map.empty"

definition correctChoiceTexts :: "AvailableLanguage \<Rightarrow> IChoice list \<Rightarrow> string option list" where
  "correctChoiceTexts lang choices =
     map (\<lambda>c. js_or (text_at (c_text c) lang) (text_at (c_text c) EN)) (filter c_isCorrect choices)"

definition userAnswers :: "AnswerValue \<Rightarrow> string list" where
  "userAnswers a = (case a of TextList xs \<Rightarrow> xs | _ \<Rightarrow> [toString a])"

definition grade_qcm :: "AvailableLanguage \<Rightarrow> IChoice list \<Rightarrow> AnswerValue \<Rightarrow> bool" where
  "grade_qcm lang choices a \<longleftrightarrow>
     length (correctChoiceTexts lang choices) = length (userAnswers a) \<and>
     list_all (\<lambda>ua. Some ua \<in> set (correctChoiceTexts lang choices)) (userAnswers a)"

definition grade_calcul :: "IQuestion \<Rightarrow> AnswerValue \<Rightarrow> bool" where
  "grade_calcul question a \<longleftrightarrow>
     (case q_correctAnswerFormula question of
        Some (c # cs) \<Rightarrow> q_type question = CALCUL \<and> toString a = c # cs
      | _ \<Rightarrow> False)"

text \<open>\<^verbatim>\<open>if (type === QCM && choices) ... else if (type === CALCUL && correctAnswerFormula) ...\<close>;
  any other question leaves \<^verbatim>\<open>isCorrect\<close> false.\<close>

definition grade :: "AvailableLanguage \<Rightarrow> IQuestion \<Rightarrow> AnswerValue \<Rightarrow> bool" where
  "grade lang question a \<longleftrightarrow>
     (case q_choices question of
        Some choices \<Rightarrow>
          if q_type question = QCM then grade_qcm lang choices a else grade_calcul question a
      | None \<Rightarrow> grade_calcul question a)"

definition updatedResponse :: "AvailableLanguage \<Rightarrow> IQuestion \<times> number \<Rightarrow> SubmittedResponse \<Rightarrow> IQuestionResponse" where
  "updatedResponse lang questionData submittedResponse =
     (let isCorrect = grade lang (fst questionData) (sr_userAnswer submittedResponse);
          scoreEarnedForThisQuestion = (if isCorrect then snd questionData else 0)
      in \<lparr> r_question = QRef (sr_question submittedResponse),
           r_userAnswer = sr_userAnswer submittedResponse,
           r_isCorrect = isCorrect,
           r_scoreEarned = scoreEarnedForThisQuestion,
           r_timeTakenSeconds =
             (case sr_timeTakenSeconds submittedResponse of Some t \<Rightarrow> t | None \<Rightarrow> 0) \<rparr>)"

text \<open>The loop over the submitted responses, with its two accumulators; a question id
  that is not in the map ends it with the error. \<^verbatim>\<open>totalScoreEarned += score\<close> is the
  addition of doubles.\<close>

fun grade_loop ::
  "(oid \<rightharpoonup> IQuestion \<times> number) \<Rightarrow> AvailableLanguage \<Rightarrow> SubmittedResponse list \<Rightarrow> double
     \<Rightarrow> IQuestionResponse list \<Rightarrow> error + double \<times> IQuestionResponse list" where
  "grade_loop m lang [] totalScoreEarned updatedResponses = Inr (totalScoreEarned, updatedResponses)"
| "grade_loop m lang (submittedResponse # rest) totalScoreEarned updatedResponses =
     (case m (sr_question submittedResponse) of
        None \<Rightarrow> Inl (InvalidQuestion (sr_question submittedResponse))
      | Some questionData \<Rightarrow>
          let r = updatedResponse lang questionData submittedResponse
          in grade_loop m lang rest
               (if r_isCorrect r then js_add totalScoreEarned (fl (r_scoreEarned r))
                else totalScoreEarned)
               (updatedResponses @ [r]))"

text \<open>\<^verbatim>\<open>maxPossibleScore > 0 ? (totalScoreEarned / maxPossibleScore) * quizGlobalScore : 0\<close>,
  the quotient rounded, then the product rounded.\<close>

definition finalCalculatedScore :: "IQuizSession \<Rightarrow> double \<Rightarrow> double" where
  "finalCalculatedScore session totalScoreEarned =
     (if js_lt (Finite 0) (s_maxPossibleScore session)
      then js_mul (js_div totalScoreEarned (s_maxPossibleScore session))
             (fl (s_quizGlobalScore session))
      else Finite 0)"

text \<open>The literal \<^verbatim>\<open>0.7\<close> is the double nearest to seven tenths.\<close>

definition passThreshold :: double where
  "passThreshold = fl (7 / 10)"

text \<open>\<^verbatim>\<open>(finalCalculatedScore / quizGlobalScore) >= passThreshold ? 'passed' : 'failed'\<close>\<close>

definition passStatus :: "IQuizSession \<Rightarrow> double \<Rightarrow> PassStatus" where
  "passStatus session final =
     (if js_ge (js_div final (fl (s_quizGlobalScore session))) passThreshold
      then passed else failed)"

subsection \<open>Notifications\<close>

definition is_hex :: "char \<Rightarrow> bool" where
  "is_hex c \<longleftrightarrow> c \<in> set ''0123456789abcdefABCDEF''"

text \<open>\<^verbatim>\<open>Types.ObjectId.isValid\<close> on a string: the 24 hexadecimal digits of an id.\<close>

definition Types_ObjectId_isValid :: "string \<Rightarrow> bool" where
  "Types_ObjectId_isValid i \<longleftrightarrow> length i = 24 \<and> list_all is_hex i"

record CreateNotificationData =
  nd_recipientId :: oid
  nd_type :: NotificationType
  nd_message :: string
  nd_relatedEntityId :: "oid option"
  nd_relatedEntityType :: "string option"

definition createNotificationService :: "db \<Rightarrow> CreateNotificationData \<Rightarrow> (error + INotification) \<times> db" where
  "createNotificationService d data =
     (if \<not> Types_ObjectId_isValid (nd_recipientId data) then (Inl InvalidRecipientId, d)
      else (case findById u_id (User_docs d) (nd_recipientId data) of
              None \<Rightarrow> (Inl RecipientNotFound, d)
            | Some recipient \<Rightarrow>
                let newNotification =
                      \<lparr> n_recipient = nd_recipientId data, n_type = nd_type data,
                        n_message = nd_message data,
                        n_relatedEntityId = nd_relatedEntityId data,
                        n_relatedEntityType = nd_relatedEntityType data, n_status = UNREAD \<rparr>
                in (Inr newNotification,
                    d\<lparr> Notification_docs := Notification_docs d @ [newNotification] \<rparr>)))"

text \<open>A \<^verbatim>\<open>Set\<close> of strings in insertion order.\<close>

definition set_add :: "string list \<Rightarrow> string \<Rightarrow> string list" where
  "set_add xs x = (if x \<in> set xs then xs else xs @ [x])"

definition recipients :: "oid \<Rightarrow> oid list \<Rightarrow> oid list" where
  "recipients quizCreatorId trainingTeachers = foldl set_add [quizCreatorId] trainingTeachers"

definition e_acute :: string where
  "e_acute = [CHR 0xC3, CHR 0xA9]"

definition graded_message :: "string \<Rightarrow> string \<Rightarrow> string" where
  "graded_message quizTitle studentUsername =
     ''De nouveaux r'' @ e_acute @ ''sultats sont disponibles pour le quiz '' @ [CHR 0x22]
     @ quizTitle @ [CHR 0x22] @ ''. L'' @ [CHR 0x27] @ e_acute @ ''tudiant '' @ studentUsername
     @ '' a termin'' @ e_acute @ '' sa session.''"

text \<open>The loop \<^verbatim>\<open>for (const recipientId of recipients) await createNotificationService(...)\<close>:
  no handler surrounds the call, so the first failure ends the loop and is the outcome.\<close>

fun notify_loop :: "db \<Rightarrow> oid list \<Rightarrow> string \<Rightarrow> oid \<Rightarrow> error option \<times> db" where
  "notify_loop d [] message sessionId = (None, d)"
| "notify_loop d (recipientId # rest) message sessionId =
     (case createNotificationService d
             \<lparr> nd_recipientId = recipientId, nd_type = QUIZ_GRADED, nd_message = message,
               nd_relatedEntityId = Some sessionId, nd_relatedEntityType = Some ''QuizSession'' \<rparr> of
        (Inl e, d') \<Rightarrow> (Some e, d')
      | (Inr n, d') \<Rightarrow> notify_loop d' rest message sessionId)"

subsection \<open>The service\<close>

text \<open>The cast of the update and the validators that \<^verbatim>\<open>runValidators: true\<close> runs on the
  updated paths: \<^verbatim>\<open>NaN\<close> is not cast to a number, and each number has its \<^verbatim>\<open>min\<close>.\<close>

definition update_valid :: "double \<Rightarrow> double \<Rightarrow> number \<Rightarrow> IQuestionResponse list \<Rightarrow> bool" where
  "update_valid totalScoreEarned final durationSeconds updatedResponses \<longleftrightarrow>
     js_ge totalScoreEarned (Finite 0) \<and> js_ge final (Finite 0) \<and>
     js_ge (fl durationSeconds) (Finite 0) \<and>
     list_all QuestionResponseSchema_valid updatedResponses"

fun update_first :: "oid \<Rightarrow> (IQuizSession \<Rightarrow> IQuizSession) \<Rightarrow> IQuizSession list \<Rightarrow> IQuizSession list" where
  "update_first i f [] = []"
| "update_first i f (s # ss) = (if s_id s = i then f s # ss else s # update_first i f ss)"

text \<open>\<^verbatim>\<open>QuizSession.findByIdAndUpdate(sessionId, update, { new: true })\<close>: the filter is the id
  alone.\<close>

definition findByIdAndUpdate ::
  "db \<Rightarrow> oid \<Rightarrow> (IQuizSession \<Rightarrow> IQuizSession) \<Rightarrow> IQuizSession option \<times> db" where
  "findByIdAndUpdate d sessionId f =
     (case findById s_id (QuizSession_docs d) sessionId of
        None \<Rightarrow> (None, d)
      | Some s \<Rightarrow> (Some (f s), d\<lparr> QuizSession_docs := update_first sessionId f (QuizSession_docs d) \<rparr>))"

definition session_update ::
  "IQuestionResponse list \<Rightarrow> double \<Rightarrow> double \<Rightarrow> number \<Rightarrow> PassStatus \<Rightarrow> IQuizSession \<Rightarrow> IQuizSession" where
  "session_update updatedResponses totalScoreEarned final durationSeconds status s =
     s\<lparr> s_responses := updatedResponses, s_totalScoreEarned := totalScoreEarned,
        s_finalCalculatedScore := final, s_durationSeconds := durationSeconds,
        s_isCompleted := True, s_passStatus := Some status \<rparr>"

text \<open>\<^verbatim>\<open>toString()\<close> of a plain object, which is what \<^verbatim>\<open>lean()\<close> returns for a populated
  document: \<^verbatim>\<open>Object.prototype.toString\<close> gives the same string for every object.\<close>

definition Object_toString :: "'a \<Rightarrow> string" where
  "Object_toString obj = ''[object Object]''"

text \<open>The first storage call and the guards that follow it. The session is read with its
  quiz, the questions of the manifest and its user populated
  (\<^verbatim>\<open>populate('user', 'username').lean()\<close>), so \<^verbatim>\<open>session.user\<close> is the plain object of the
  user, or \<^verbatim>\<open>null\<close> when the user no longer exists. The guard on the owner is
  \<^verbatim>\<open>session.user.toString() !== requestingUserId\<close>: on \<^verbatim>\<open>null\<close> it raises a \<^verbatim>\<open>TypeError\<close>, and on
  the object it compares \<^verbatim>\<open>[object Object]\<close> with the id of the requester.\<close>

definition submit_read ::
  "db \<Rightarrow> oid \<Rightarrow> number \<Rightarrow> string \<Rightarrow> error + IQuizSession \<times> (IQuestion option \<times> number) list" where
  "submit_read d sessionId durationSeconds requestingUserId =
     (case findById s_id (QuizSession_docs d) sessionId of
        None \<Rightarrow> Inl SessionNotFound
      | Some session \<Rightarrow>
          (case findById u_id (User_docs d) (s_user session) of
             None \<Rightarrow> Inl UncaughtTypeError
           | Some user \<Rightarrow>
               if Object_toString user \<noteq> requestingUserId then Inl NotAuthorizedToSubmit
               else if s_isCompleted session then Inl AlreadyCompleted
               else if js_lt (fl durationSeconds) (Finite 0) then Inl InvalidDuration
               else (case findById qz_id (Quiz_docs d) (s_quiz session) of
                       None \<Rightarrow> Inl AssociatedQuizNotFound
                     | Some quiz \<Rightarrow> Inr (session, populate_questions d (qz_questions quiz)))))"

text \<open>The notification step, on the session as the update returned it with its user, its
  quiz and the training of the quiz populated. The quiz and the user were found by the
  first storage call; were one of them gone at the second, \<^verbatim>\<open>.creator\<close> or \<^verbatim>\<open>.username\<close> of
  \<^verbatim>\<open>null\<close> would raise a \<^verbatim>\<open>TypeError\<close> here.\<close>

definition notify_graded :: "db \<Rightarrow> IQuizSession \<Rightarrow> (error + IQuizSession) \<times> db" where
  "notify_graded d updatedSession =
     (case findById qz_id (Quiz_docs d) (s_quiz updatedSession) of
        None \<Rightarrow> (Inl UncaughtTypeError, d)
      | Some quiz \<Rightarrow>
          let quizCreatorId = qz_creator quiz;
              trainingTeachers =
                (case findById t_id (Training_docs d) (qz_training quiz) of
                   None \<Rightarrow> [] | Some training \<Rightarrow> t_teachers training)
          in (case findById u_id (User_docs d) (s_user updatedSession) of
                None \<Rightarrow> (Inl UncaughtTypeError, d)
              | Some user \<Rightarrow>
                  (case notify_loop d (recipients quizCreatorId trainingTeachers)
                          (graded_message (ls_fr (qz_title quiz)) (u_username user))
                          (s_id updatedSession) of
                     (Some e, d') \<Rightarrow> (Inl e, d')
                   | (None, d') \<Rightarrow> (Inr (populate_session d updatedSession), d'))))"

text \<open>Everything after the guards: grading from what the first call read, the update of
  the session by its id, the notifications.\<close>

definition submit_write ::
  "db \<Rightarrow> oid \<Rightarrow> SubmitQuizSessionData \<Rightarrow> IQuizSession \<times> (IQuestion option \<times> number) list
     \<Rightarrow> (error + IQuizSession) \<times> db" where
  "submit_write d sessionId data snapshot =
     (case grade_loop (quizQuestionsMap (snd snapshot)) (s_language (fst snapshot))
             (sub_responses data) (Finite 0) [] of
        Inl e \<Rightarrow> (Inl e, d)
      | Inr (totalScoreEarned, updatedResponses) \<Rightarrow>
          let final = finalCalculatedScore (fst snapshot) totalScoreEarned;
              status = passStatus (fst snapshot) final
          in if \<not> update_valid totalScoreEarned final (sub_durationSeconds data) updatedResponses
             then (Inl UpdateValidationError, d)
             else (case findByIdAndUpdate d sessionId
                          (session_update updatedResponses totalScoreEarned final
                             (sub_durationSeconds data) status) of
                     (None, d') \<Rightarrow> (Inl SessionUpdateFailed, d')
                   | (Some updatedSession, d') \<Rightarrow> notify_graded d' updatedSession))"

definition after_read ::
  "db \<Rightarrow> oid \<Rightarrow> SubmitQuizSessionData
     \<Rightarrow> error + IQuizSession \<times> (IQuestion option \<times> number) list \<Rightarrow> (error + IQuizSession) \<times> db" where
  "after_read d sessionId data r =
     (case r of Inl e \<Rightarrow> (Inl e, d) | Inr snapshot \<Rightarrow> submit_write d sessionId data snapshot)"

definition submitQuizSessionService ::
  "db \<Rightarrow> oid \<Rightarrow> SubmitQuizSessionData \<Rightarrow> string \<Rightarrow> (error + IQuizSession) \<times> db" where
  "submitQuizSessionService d sessionId data requestingUserId =
     after_read d sessionId data
       (submit_read d sessionId (sub_durationSeconds data) requestingUserId)"


subsection \<open>The controller\<close>

record RequestUser =
  ru_id :: string
  ru_role :: UserRole


section \<open>Quizzes\<close>

datatype Method = generate | select

record QuestionsConfig =
  qc_method :: Method
  qc_chapterIds :: "oid list option"
  qc_numberOfQuestions :: "nat option"
  qc_difficulty :: "Difficulty option"
  qc_selectedQuestionIdsWithScores :: "(oid \<times> number option) list option"

record CreateQuizData =
  cq_trainingId :: oid
  cq_title :: ILocalizedString
  cq_description :: "ILocalizedString option"
  cq_thumbnailUrl :: "string option"
  cq_creatorId :: oid
  cq_quizType :: QuizType
  cq_deadline :: "nat option"
  cq_slug :: string
  cq_durationMinutes :: "number option"
  cq_globalScore :: number
  cq_allowedAttempts :: "number option"
  cq_tags :: "string list option"
  cq_questionsConfig :: "QuestionsConfig option"
  cq_isPublic :: "bool option"

record UpdateQuizData =
  uq_title :: "ILocalizedString option"
  uq_description :: "ILocalizedString option"
  uq_thumbnailUrl :: "string option"
  uq_deadline :: "nat option option"
  uq_isPublished :: "bool option"
  uq_durationMinutes :: "number option"
  uq_globalScore :: "number option"
  uq_allowedAttempts :: "number option"
  uq_tags :: "string list option"
  uq_questions :: "IQuestionWithScore list option"
  uq_isPublic :: "bool option"

text \<open>The validators of \<^verbatim>\<open>QuizSchema\<close> and \<^verbatim>\<open>QuestionWithScoreSchema\<close> on numbers, on the
  manifest and on the two conditionally required dates. The validators of text formats
  and the unique index on the slug are left out: they make more saves fail, none succeed.\<close>

definition QuizSchema_valid :: "IQuiz \<Rightarrow> bool" where
  "QuizSchema_valid q \<longleftrightarrow>
     qz_questions q \<noteq> [] \<and> list_all (\<lambda>item. 0 \<le> score item) (qz_questions q) \<and>
     1 \<le> qz_globalScore q \<and>
     (case qz_allowedAttempts q of None \<Rightarrow> True | Some a \<Rightarrow> 0 \<le> a) \<and>
     (case qz_durationMinutes q of None \<Rightarrow> True | Some m \<Rightarrow> 0 \<le> m) \<and>
     (case qz_deadline q of None \<Rightarrow> qz_quizType q = REVISION | Some t \<Rightarrow> True) \<and>
     (case qz_publishedAt q of None \<Rightarrow> \<not> qz_isPublished q | Some t \<Rightarrow> True)"

text \<open>\<^verbatim>\<open>x || null\<close> on an optional number: 0 is falsy.\<close>

definition number_or_null :: "number option \<Rightarrow> number option" where
  "number_or_null x = (case x of Some n \<Rightarrow> if n = 0 then None else Some n | None \<Rightarrow> None)"

text \<open>The \<^verbatim>\<open>$match\<close> stage of the aggregation: the questions of the chapters, of the
  difficulty when one is asked for.\<close>

definition matching_questions :: "db \<Rightarrow> oid list \<Rightarrow> Difficulty option \<Rightarrow> IQuestion list" where
  "matching_questions d chapterIds difficulty =
     filter (\<lambda>q. q_chapter q \<in> set chapterIds \<and>
                 (case difficulty of None \<Rightarrow> True | Some df \<Rightarrow> q_difficulty q = df))
       (Question_docs d)"

text \<open>\<^verbatim>\<open>generateQuestionsForQuiz\<close>. The \<^verbatim>\<open>$sample\<close> stage belongs to the storage engine;
  \<^verbatim>\<open>sample\<close> is what it draws in this call, from the documents it is given and the size.\<close>

definition generateQuestionsForQuiz ::
  "db \<Rightarrow> (IQuestion list \<Rightarrow> nat \<Rightarrow> IQuestion list) \<Rightarrow> oid list \<Rightarrow> nat \<Rightarrow> Difficulty option
     \<Rightarrow> error + IQuestionWithScore list" where
  "generateQuestionsForQuiz d sample chapterIds numberOfQuestions difficulty =
     (if chapterIds = [] then Inl ChapterIdsRequired
      else if numberOfQuestions = 0 then Inl NumberMustBePositive
      else
        let questions = sample (matching_questions d chapterIds difficulty) numberOfQuestions
        in if length questions < numberOfQuestions
           then Inl (InsufficientQuestions numberOfQuestions (length questions))
           else Inr (map (\<lambda>q. \<lparr> questionId = q_id q, score = 1 \<rparr>) questions))"

text \<open>\<^verbatim>\<open>Question.find({ _id: { $in: questionIds } })\<close>\<close>

definition find_questions_in :: "db \<Rightarrow> oid list \<Rightarrow> IQuestion list" where
  "find_questions_in d questionIds = filter (\<lambda>q. q_id q \<in> set questionIds) (Question_docs d)"

definition quizQuestions ::
  "db \<Rightarrow> (IQuestion list \<Rightarrow> nat \<Rightarrow> IQuestion list) \<Rightarrow> QuestionsConfig option
     \<Rightarrow> error + IQuestionWithScore list" where
  "quizQuestions d sample questionsConfig =
     (case questionsConfig of
        None \<Rightarrow> Inl MethodRequired
      | Some config \<Rightarrow>
          (case qc_method config of
             generate \<Rightarrow>
               (case (qc_chapterIds config, qc_numberOfQuestions config) of
                  (Some (c # cs), Some (Suc n)) \<Rightarrow>
                    generateQuestionsForQuiz d sample (c # cs) (Suc n) (qc_difficulty config)
                | _ \<Rightarrow> Inl GenerationParamsRequired)
           | select \<Rightarrow>
               (case qc_selectedQuestionIdsWithScores config of
                  Some (x # xs) \<Rightarrow>
                    if length (find_questions_in d (map fst (x # xs))) \<noteq> length (x # xs)
                    then Inl SelectedNotFound
                    else Inr (map (\<lambda>q. \<lparr> questionId = fst q,
                                          score = (case snd q of Some sc \<Rightarrow> sc | None \<Rightarrow> 1) \<rparr>)
                                (x # xs))
                | _ \<Rightarrow> Inl SelectedIdsRequired)))"

definition newQuiz :: "oid \<Rightarrow> IUser \<Rightarrow> CreateQuizData \<Rightarrow> IQuestionWithScore list \<Rightarrow> IQuiz" where
  "newQuiz newId creator data questions =
     (let isPublished =
            (if u_role creator = STUDENT \<and> cq_quizType data = REVISION then False else False)
      in \<lparr> qz_id = newId, qz_training = cq_trainingId data, qz_title = cq_title data,
           qz_description = cq_description data, qz_thumbnailUrl = cq_thumbnailUrl data,
           qz_creator = cq_creatorId data, qz_quizType = cq_quizType data,
           qz_deadline = cq_deadline data, qz_isPublished = isPublished,
           qz_publishedAt = None,
           qz_durationMinutes = number_or_null (cq_durationMinutes data),
           qz_questions = questions, qz_globalScore = cq_globalScore data,
           qz_allowedAttempts = number_or_null (cq_allowedAttempts data),
           qz_tags = (case cq_tags data of Some ts \<Rightarrow> ts | None \<Rightarrow> []),
           qz_isPublic = (case cq_isPublic data of Some b \<Rightarrow> b | None \<Rightarrow> False),
           qz_slug = cq_slug data \<rparr>)"

fun replace_by_id :: "('a \<Rightarrow> oid) \<Rightarrow> 'a \<Rightarrow> 'a list \<Rightarrow> 'a list" where
  "replace_by_id ident x [] = []"
| "replace_by_id ident x (y # ys) =
     (if ident y = ident x then x # ys else y # replace_by_id ident x ys)"

text \<open>The guards of \<^verbatim>\<open>createQuizService\<close> on the creator and on the training. Every role
  is one of the four that the last guard on the role lists, so that guard never fires and
  is left out.\<close>

definition create_guards :: "db \<Rightarrow> CreateQuizData \<Rightarrow> error + IUser \<times> ITraining" where
  "create_guards d data =
     (case findById u_id (User_docs d) (cq_creatorId data) of
        None \<Rightarrow> Inl CreatorNotFound
      | Some creator \<Rightarrow>
          if u_role creator = STUDENT \<and> cq_quizType data \<noteq> REVISION
          then Inl StudentsOnlyRevision
          else if u_role creator = TEACHER \<and> cq_quizType data = REVISION
          then Inl TeachersNoRevision
          else
            (case findById t_id (Training_docs d) (cq_trainingId data) of
               None \<Rightarrow> Inl TrainingNotFound
             | Some training \<Rightarrow> Inr (creator, training)))"

text \<open>\<^verbatim>\<open>createQuizService\<close>; \<^verbatim>\<open>newId\<close> is the id the new quiz is given.\<close>

definition createQuizService ::
  "db \<Rightarrow> oid \<Rightarrow> (IQuestion list \<Rightarrow> nat \<Rightarrow> IQuestion list) \<Rightarrow> CreateQuizData
     \<Rightarrow> (error + IQuiz) \<times> db" where
  "createQuizService d newId sample data =
     (case create_guards d data of
        Inl e \<Rightarrow> (Inl e, d)
      | Inr (creator, training) \<Rightarrow>
          (case quizQuestions d sample (cq_questionsConfig data) of
             Inl e \<Rightarrow> (Inl e, d)
           | Inr questions \<Rightarrow>
               let quiz = newQuiz newId creator data questions
               in if \<not> QuizSchema_valid quiz then (Inl QuizValidationError, d)
                  else (Inr quiz,
                        d\<lparr> Quiz_docs := Quiz_docs d @ [quiz],
                           Training_docs :=
                             replace_by_id t_id
                               (training\<lparr> t_quizzes := t_quizzes training @ [newId] \<rparr>)
                               (Training_docs d) \<rparr>)))"

definition isAdminOrManager :: "RequestUser \<Rightarrow> bool" where
  "isAdminOrManager u \<longleftrightarrow> ru_role u = ADMIN \<or> ru_role u = MANAGER"

definition changesToSensitiveFields :: "UpdateQuizData \<Rightarrow> bool" where
  "changesToSensitiveFields data \<longleftrightarrow>
     uq_questions data \<noteq> None \<or> uq_globalScore data \<noteq> None \<or>
     uq_durationMinutes data \<noteq> None \<or> uq_allowedAttempts data \<noteq> None"

text \<open>The assignments of \<^verbatim>\<open>updateQuizService\<close> other than the manifest. Neither
  \<^verbatim>\<open>isPublished\<close> nor \<^verbatim>\<open>quizType\<close> is among them, and the update data has no \<^verbatim>\<open>quizType\<close>
  for the test on the sensitive fields to find.\<close>

definition assign_fields :: "UpdateQuizData \<Rightarrow> IQuiz \<Rightarrow> IQuiz" where
  "assign_fields data quiz =
     quiz\<lparr> qz_title := (case uq_title data of Some t \<Rightarrow> t | None \<Rightarrow> qz_title quiz),
           qz_description :=
             (case uq_description data of Some t \<Rightarrow> Some t | None \<Rightarrow> qz_description quiz),
           qz_deadline := (case uq_deadline data of Some t \<Rightarrow> t | None \<Rightarrow> qz_deadline quiz),
           qz_durationMinutes :=
             (case uq_durationMinutes data of Some m \<Rightarrow> Some m | None \<Rightarrow> qz_durationMinutes quiz),
           qz_globalScore :=
             (case uq_globalScore data of Some g \<Rightarrow> g | None \<Rightarrow> qz_globalScore quiz),
           qz_allowedAttempts :=
             (case uq_allowedAttempts data of Some a \<Rightarrow> Some a | None \<Rightarrow> qz_allowedAttempts quiz),
           qz_tags := (case uq_tags data of Some ts \<Rightarrow> ts | None \<Rightarrow> qz_tags quiz),
           qz_isPublic := (case uq_isPublic data of Some b \<Rightarrow> b | None \<Rightarrow> qz_isPublic quiz) \<rparr>"

definition save_quiz :: "db \<Rightarrow> IQuiz \<Rightarrow> error \<Rightarrow> (error + IQuiz) \<times> db" where
  "save_quiz d quiz e =
     (if \<not> QuizSchema_valid quiz then (Inl e, d)
      else (Inr quiz, d\<lparr> Quiz_docs := replace_by_id qz_id quiz (Quiz_docs d) \<rparr>))"

definition updateQuizService ::
  "db \<Rightarrow> oid \<Rightarrow> UpdateQuizData \<Rightarrow> RequestUser \<Rightarrow> (error + IQuiz) \<times> db" where
  "updateQuizService d quizId data requestingUser =
     (if \<not> Types_ObjectId_isValid quizId then (Inl InvalidQuizIdFormat, d)
      else (case findById qz_id (Quiz_docs d) quizId of
        None \<Rightarrow> (Inl QuizNotFound, d)
      | Some quiz \<Rightarrow>
          let isCreator = (qz_creator quiz = ru_id requestingUser) in
          if \<not> isCreator \<and> \<not> isAdminOrManager requestingUser then (Inl NotAuthorizedToUpdate, d)
          else if qz_isPublished quiz \<and> \<not> isAdminOrManager requestingUser
                  \<and> changesToSensitiveFields data
          then (Inl SensitiveFieldsOfPublished, d)
          else
            (case uq_questions data of
               None \<Rightarrow> save_quiz d (assign_fields data quiz) QuizValidationError
             | Some questions \<Rightarrow>
                 if questions = [] then (Inl QuizNeedsQuestion, d)
                 else if length (find_questions_in d (map questionId questions)) \<noteq> length questions
                 then (Inl InvalidQuestionIds, d)
                 else save_quiz d ((assign_fields data quiz)\<lparr> qz_questions := questions \<rparr>)
                        QuizValidationError)))"

text \<open>\<^verbatim>\<open>publishQuizService\<close>; \<^verbatim>\<open>now\<close> is the date of the call.\<close>

definition publishQuizService ::
  "db \<Rightarrow> oid \<Rightarrow> bool \<Rightarrow> RequestUser \<Rightarrow> nat \<Rightarrow> (error + IQuiz) \<times> db" where
  "publishQuizService d quizId publishStatus requestingUser now =
     (if \<not> Types_ObjectId_isValid quizId then (Inl InvalidQuizIdFormat, d)
      else (case findById qz_id (Quiz_docs d) quizId of
        None \<Rightarrow> (Inl QuizNotFound, d)
      | Some quiz \<Rightarrow>
          let isCreatorTeacher =
                (qz_creator quiz = ru_id requestingUser \<and> ru_role requestingUser = TEACHER) in
          if \<not> isCreatorTeacher \<and> \<not> isAdminOrManager requestingUser
          then (Inl NotAuthorizedToPublish, d)
          else if qz_quizType quiz = REVISION \<and> publishStatus
          then (Inl RevisionCannotBePublished, d)
          else if publishStatus \<and> qz_isPublished quiz then (Inl AlreadyPublished, d)
          else if \<not> publishStatus \<and> \<not> qz_isPublished quiz then (Inl AlreadyUnpublished, d)
          else save_quiz d
                 (quiz\<lparr> qz_isPublished := publishStatus,
                        qz_publishedAt := (if publishStatus then Some now else None) \<rparr>)
                 PublishFailed))"

definition deleteQuizService :: "db \<Rightarrow> oid \<Rightarrow> RequestUser \<Rightarrow> (error + unit) \<times> db" where
  "deleteQuizService d quizId requestingUser =
     (if \<not> Types_ObjectId_isValid quizId then (Inl InvalidQuizIdFormat, d)
      else (case findById qz_id (Quiz_docs d) quizId of
        None \<Rightarrow> (Inl QuizNotFoundOrDeleted, d)
      | Some quiz \<Rightarrow>
          let isCreator = (qz_creator quiz = ru_id requestingUser) in
          if \<not> isAdminOrManager requestingUser \<and> qz_isPublished quiz
          then (Inl PublishedDeleteForbidden, d)
          else if \<not> isAdminOrManager requestingUser \<and> \<not> isCreator
          then (Inl NotAuthorizedToDelete, d)
          else (Inr (),
                d\<lparr> Training_docs :=
                     map (\<lambda>t. if t_id t = qz_training quiz
                               then t\<lparr> t_quizzes := removeAll (qz_id quiz) (t_quizzes t) \<rparr>
                               else t)
                       (Training_docs d),
                   Quiz_docs := filter (\<lambda>q. qz_id q \<noteq> quizId) (Quiz_docs d) \<rparr>)))"

subsection \<open>Sequences of calls\<close>

datatype operation =
    CreateQuiz oid "IQuestion list \<Rightarrow> nat \<Rightarrow> IQuestion list" CreateQuizData
  | UpdateQuiz oid UpdateQuizData RequestUser
  | PublishQuiz oid bool RequestUser nat
  | DeleteQuiz oid RequestUser
  | StartSession oid nat StartQuizSessionData
  | SubmitSession oid SubmitQuizSessionData oid

text \<open>The store a call leaves behind, whether it succeeds or fails.\<close>

fun step :: "db \<Rightarrow> operation \<Rightarrow> db" where
  "step d (CreateQuiz newId sample data) = snd (createQuizService d newId sample data)"
| "step d (UpdateQuiz quizId data u) = snd (updateQuizService d quizId data u)"
| "step d (PublishQuiz quizId publishStatus u now) =
     snd (publishQuizService d quizId publishStatus u now)"
| "step d (DeleteQuiz quizId u) = snd (deleteQuizService d quizId u)"
| "step d (StartSession newId now data) = snd (startQuizSessionService d newId now data)"
| "step d (SubmitSession sessionId data u) = snd (submitQuizSessionService d sessionId data u)"

definition run :: "db \<Rightarrow> operation list \<Rightarrow> db" where
  "run d ops = foldl step d ops"

section \<open>Vocabulary of the properties\<close>

text \<open>The field names a client view may carry, and the ones it must not.\<close>

definition view_fields :: "string list" where
  "view_fields =
     [''_id'', ''text'', ''type'', ''choices'', ''difficulty'', ''tags'', ''fr'', ''en'', ''ar'', ''es'']"

definition sensitive_fields :: "string list" where
  "sensitive_fields = [''isCorrect'', ''correctAnswerFormula'', ''explanation'']"

text \<open>The entries of the \<^verbatim>\<open>choices\<close> array of a view, and the field names of an object
  at its top level.\<close>

definition choices_of :: "jvalue \<Rightarrow> jvalue list" where
  "choices_of v =
     (case v of
        JObj kvs \<Rightarrow> (case map_of kvs ''choices'' of Some (JArr cs) \<Rightarrow> cs | _ \<Rightarrow> [])
      | _ \<Rightarrow> [])"

definition top_fields :: "jvalue \<Rightarrow> string list" where
  "top_fields v = (case v of JObj kvs \<Rightarrow> map fst kvs | _ \<Rightarrow> [])"

text \<open>The entries of a populated manifest whose question exists.\<close>

definition found_questions :: "(IQuestion option \<times> number) list \<Rightarrow> (IQuestion \<times> number) list" where
  "found_questions ps = concat (map (\<lambda>p. case fst p of None \<Rightarrow> [] | Some q \<Rightarrow> [(q, snd p)]) ps)"

text \<open>Two stores that differ in their notifications at most.\<close>

definition same_documents :: "db \<Rightarrow> db \<Rightarrow> bool" where
  "same_documents d d' \<longleftrightarrow>
     User_docs d' = User_docs d \<and> Question_docs d' = Question_docs d \<and>
     Quiz_docs d' = Quiz_docs d \<and> Training_docs d' = Training_docs d \<and>
     QuizSession_docs d' = QuizSession_docs d"

text \<open>The sum of numbers as the loop of the service computes it: one addition of doubles
  after the other, in the order of the list.\<close>

definition js_sum_from :: "double \<Rightarrow> number list \<Rightarrow> double" where
  "js_sum_from t xs = foldl (\<lambda>a x. js_add a (fl x)) t xs"

definition js_sum :: "number list \<Rightarrow> double" where
  "js_sum xs = js_sum_from (Finite 0) xs"



text \<open>A revision quiz that is published: the state that must not occur.\<close>

definition published_revision :: "IQuiz \<Rightarrow> bool" where
  "published_revision q \<longleftrightarrow> qz_quizType q = REVISION \<and> qz_isPublished q"

text \<open>The question ids of the manifest of the quiz a call has created, none when it failed.\<close>

definition manifest_of :: "(error + IQuiz) \<times> db \<Rightarrow> oid list" where
  "manifest_of r = (case fst r of Inr quiz \<Rightarrow> map questionId (qz_questions quiz) | Inl e \<Rightarrow> [])"

section \<open>A worked example\<close>

text \<open>A store with one student, two teachers, four questions worth one point each and
  a published quiz on a scale of 20 that allows one attempt.\<close>

definition ex_alice_id :: oid where "ex_alice_id = ''a00000000000000000000001''"
definition ex_bob_id :: oid where "ex_bob_id = ''b00000000000000000000002''"
definition ex_carol_id :: oid where "ex_carol_id = ''c00000000000000000000003''"
definition ex_quiz_id :: oid where "ex_quiz_id = ''d00000000000000000000004''"
definition ex_training_id :: oid where "ex_training_id = ''e00000000000000000000005''"
definition ex_session_id :: oid where "ex_session_id = ''f00000000000000000000006''"
definition ex_chapter_id :: oid where "ex_chapter_id = ''900000000000000000000009''"
definition ex_q1_id :: oid where "ex_q1_id = ''100000000000000000000001''"
definition ex_q2_id :: oid where "ex_q2_id = ''200000000000000000000002''"
definition ex_q3_id :: oid where "ex_q3_id = ''300000000000000000000003''"
definition ex_q4_id :: oid where "ex_q4_id = ''400000000000000000000004''"

definition ex_alice :: IUser where
  "ex_alice = \<lparr> u_id = ex_alice_id, u_username = ''alice'', u_role = STUDENT \<rparr>"

definition ex_bob :: IUser where
  "ex_bob = \<lparr> u_id = ex_bob_id, u_username = ''bob'', u_role = TEACHER \<rparr>"

definition ex_carol :: IUser where
  "ex_carol = \<lparr> u_id = ex_carol_id, u_username = ''carol'', u_role = TEACHER \<rparr>"

definition ex_choice :: "string \<Rightarrow> bool \<Rightarrow> IChoice" where
  "ex_choice t correct =
     \<lparr> c_text = ILocalizedChoice t (Some t) None None, c_isCorrect = correct,
       c_choiceMediaType = None, c_choiceMediaUrl = None, c_choiceMediaAltText = None \<rparr>"

definition ex_question ::
  "oid \<Rightarrow> string \<Rightarrow> QuestionType \<Rightarrow> IChoice list option \<Rightarrow> string option \<Rightarrow> IQuestion" where
  "ex_question i t ty cs formula =
     \<lparr> q_id = i, q_chapter = ex_chapter_id, q_text = ILocalizedString t t None None,
       q_mediaType = None, q_mediaUrl = None, q_mediaAltText = None, q_type = ty,
       q_choices = cs, q_correctAnswerFormula = formula,
       q_explanation = Some (ILocalizedString ''voir le cours'' ''see the course'' None None),
       q_difficulty = medium, q_tags = [''demo''] \<rparr>"

definition ex_q1 :: IQuestion where
  "ex_q1 = ex_question ex_q1_id ''capitals'' QCM
     (Some [ex_choice ''Paris'' True, ex_choice ''Rome'' True, ex_choice ''Lyon'' False]) None"

definition ex_q2 :: IQuestion where
  "ex_q2 = ex_question ex_q2_id ''2 + 2'' QCM
     (Some [ex_choice ''4'' True, ex_choice ''5'' False]) None"

definition ex_q3 :: IQuestion where
  "ex_q3 = ex_question ex_q3_id ''6 * 7'' CALCUL (Some []) (Some ''42'')"

definition ex_q4 :: IQuestion where
  "ex_q4 = ex_question ex_q4_id ''sky'' QCM
     (Some [ex_choice ''blue'' True, ex_choice ''green'' False]) None"

definition ex_quiz :: IQuiz where
  "ex_quiz =
     \<lparr> qz_id = ex_quiz_id, qz_training = ex_training_id,
       qz_title = ILocalizedString ''Examen'' ''Exam'' None None, qz_description = None,
       qz_thumbnailUrl = None, qz_creator = ex_bob_id,
       qz_quizType = SUMMATIVE, qz_deadline = Some 100, qz_isPublished = True,
       qz_publishedAt = Some 10, qz_durationMinutes = None,
       qz_questions =
         [\<lparr> questionId = ex_q1_id, score = 1 \<rparr>, \<lparr> questionId = ex_q2_id, score = 1 \<rparr>,
          \<lparr> questionId = ex_q3_id, score = 1 \<rparr>, \<lparr> questionId = ex_q4_id, score = 1 \<rparr>],
       qz_globalScore = 20, qz_allowedAttempts = Some 1, qz_tags = [], qz_isPublic = False,
       qz_slug = ''exam'' \<rparr>"

definition ex_training :: ITraining where
  "ex_training =
     \<lparr> t_id = ex_training_id, t_teachers = [ex_bob_id, ex_carol_id], t_quizzes = [ex_quiz_id] \<rparr>"

definition ex_db0 :: db where
  "ex_db0 =
     \<lparr> User_docs = [ex_alice, ex_bob, ex_carol], Question_docs = [ex_q1, ex_q2, ex_q3, ex_q4],
       Quiz_docs = [ex_quiz], Training_docs = [ex_training], QuizSession_docs = [],
       Notification_docs = [] \<rparr>"

definition ex_start :: StartQuizSessionData where
  "ex_start = \<lparr> sd_user = ex_alice_id, sd_quizId = ex_quiz_id, sd_language = AR \<rparr>"

definition ex_placeholder :: "oid \<Rightarrow> IQuestionResponse" where
  "ex_placeholder i =
     \<lparr> r_question = QRef i, r_userAnswer = Text [], r_isCorrect = False, r_scoreEarned = 0,
       r_timeTakenSeconds = 0 \<rparr>"

text \<open>The session that \<^verbatim>\<open>startQuizSessionService\<close> stores for the student, and the store
  that holds it.\<close>

definition ex_session :: IQuizSession where
  "ex_session =
     \<lparr> s_id = ex_session_id, s_user = ex_alice_id, s_quiz = ex_quiz_id, s_quizDate = 50,
       s_totalScoreEarned = Finite 0, s_maxPossibleScore = Finite 4, s_quizGlobalScore = 20,
       s_finalCalculatedScore = Finite 0, s_durationSeconds = 0,
       s_responses = map ex_placeholder [ex_q1_id, ex_q2_id, ex_q3_id, ex_q4_id],
       s_language = AR, s_isCompleted = False, s_passStatus = None, s_attemptNumber = 1 \<rparr>"

definition ex_db1 :: db where
  "ex_db1 = ex_db0\<lparr> QuizSession_docs := [ex_session] \<rparr>"

definition ex_answer :: "oid \<Rightarrow> AnswerValue \<Rightarrow> SubmittedResponse" where
  "ex_answer i a = \<lparr> sr_question = i, sr_userAnswer = a, sr_timeTakenSeconds = Some 30 \<rparr>"

text \<open>Three right answers out of four.\<close>

definition ex_submission :: SubmitQuizSessionData where
  "ex_submission =
     \<lparr> sub_responses =
         [ex_answer ex_q1_id (TextList [''Rome'', ''Paris'']), ex_answer ex_q2_id (Text ''4''),
          ex_answer ex_q3_id (Number 42), ex_answer ex_q4_id (Text ''green'')],
       sub_durationSeconds = 300 \<rparr>"

definition ex_graded_response :: "oid \<Rightarrow> AnswerValue \<Rightarrow> bool \<Rightarrow> number \<Rightarrow> IQuestionResponse" where
  "ex_graded_response i a correct earned =
     \<lparr> r_question = QRef i, r_userAnswer = a, r_isCorrect = correct, r_scoreEarned = earned,
       r_timeTakenSeconds = 30 \<rparr>"

text \<open>The session and the store after the submission.\<close>

definition ex_graded :: IQuizSession where
  "ex_graded =
     ex_session\<lparr>
       s_responses :=
         [ex_graded_response ex_q1_id (TextList [''Rome'', ''Paris'']) True 1,
          ex_graded_response ex_q2_id (Text ''4'') True 1,
          ex_graded_response ex_q3_id (Number 42) True 1,
          ex_graded_response ex_q4_id (Text ''green'') False 0],
       s_totalScoreEarned := Finite 3, s_finalCalculatedScore := Finite 15,
       s_durationSeconds := 300,
       s_isCompleted := True, s_passStatus := Some passed \<rparr>"

definition ex_notification :: "oid \<Rightarrow> INotification" where
  "ex_notification recipient =
     \<lparr> n_recipient = recipient, n_type = QUIZ_GRADED,
       n_message = graded_message ''Examen'' ''alice'',
       n_relatedEntityId = Some ex_session_id, n_relatedEntityType = Some ''QuizSession'',
       n_status = UNREAD \<rparr>"

definition ex_db2 :: db where
  "ex_db2 =
     ex_db1\<lparr> QuizSession_docs := [ex_graded],
             Notification_docs := [ex_notification ex_bob_id, ex_notification ex_carol_id] \<rparr>"

definition ex_session2_id :: oid where "ex_session2_id = ''700000000000000000000007''"

text \<open>The same right answer to the first question, five times over, and nothing else.\<close>

definition ex_dup_submission :: SubmitQuizSessionData where
  "ex_dup_submission =
     \<lparr> sub_responses = replicate 5 (ex_answer ex_q1_id (TextList [''Paris'', ''Rome''])),
       sub_durationSeconds = 10 \<rparr>"

definition ex_dup_graded :: IQuizSession where
  "ex_dup_graded =
     ex_session\<lparr>
       s_responses := replicate 5 (ex_graded_response ex_q1_id (TextList [''Paris'', ''Rome'']) True 1),
       s_totalScoreEarned := Finite 5, s_finalCalculatedScore := Finite 25,
       s_durationSeconds := 10,
       s_isCompleted := True, s_passStatus := Some passed \<rparr>"

definition ex_db_dup :: db where
  "ex_db_dup =
     ex_db1\<lparr> QuizSession_docs := [ex_dup_graded],
             Notification_docs := [ex_notification ex_bob_id, ex_notification ex_carol_id] \<rparr>"

definition ex_request_user :: RequestUser where
  "ex_request_user = \<lparr> ru_id = ex_alice_id, ru_role = STUDENT \<rparr>"

text \<open>The request of a student whose id is the one string that passes the guard on the
  owner.\<close>

definition ex_object_user :: RequestUser where
  "ex_object_user = \<lparr> ru_id = ''[object Object]'', ru_role = STUDENT \<rparr>"

text \<open>One of the two right choices of the first question, twice.\<close>

definition ex_repeated_submission :: SubmitQuizSessionData where
  "ex_repeated_submission =
     \<lparr> sub_responses = [ex_answer ex_q1_id (TextList [''Paris'', ''Paris''])],
       sub_durationSeconds = 15 \<rparr>"

definition ex_repeated_graded :: IQuizSession where
  "ex_repeated_graded =
     ex_session\<lparr>
       s_responses := [ex_graded_response ex_q1_id (TextList [''Paris'', ''Paris'']) True 1],
       s_totalScoreEarned := Finite 1, s_finalCalculatedScore := Finite 5,
       s_durationSeconds := 15, s_isCompleted := True, s_passStatus := Some failed \<rparr>"

definition ex_db_repeated :: db where
  "ex_db_repeated =
     ex_db1\<lparr> QuizSession_docs := [ex_repeated_graded],
             Notification_docs := [ex_notification ex_bob_id, ex_notification ex_carol_id] \<rparr>"

text \<open>A session of ten points on a scale of 12.\<close>

definition ex_scale12 :: IQuizSession where
  "ex_scale12 = ex_session\<lparr> s_maxPossibleScore := Finite 10, s_quizGlobalScore := 12 \<rparr>"

text \<open>The store after the creator of the quiz has been deleted.\<close>

definition ex_db_nocreator :: db where
  "ex_db_nocreator = ex_db1\<lparr> User_docs := [ex_alice, ex_carol] \<rparr>"

definition ex_db_nocreator_graded :: db where
  "ex_db_nocreator_graded = ex_db_nocreator\<lparr> QuizSession_docs := [ex_graded] \<rparr>"

text \<open>A second submission, with one wrong answer, and what it makes of the session.\<close>

definition ex_wrong_submission :: SubmitQuizSessionData where
  "ex_wrong_submission =
     \<lparr> sub_responses = [ex_answer ex_q1_id (Text ''Lyon'')], sub_durationSeconds = 20 \<rparr>"

definition ex_failed :: IQuizSession where
  "ex_failed =
     ex_session\<lparr>
       s_responses := [ex_graded_response ex_q1_id (Text ''Lyon'') False 0],
       s_totalScoreEarned := Finite 0, s_finalCalculatedScore := Finite 0,
       s_durationSeconds := 20,
       s_isCompleted := True, s_passStatus := Some failed \<rparr>"

definition ex_db_wrong :: db where
  "ex_db_wrong =
     ex_db1\<lparr> QuizSession_docs := [ex_failed],
             Notification_docs := [ex_notification ex_bob_id, ex_notification ex_carol_id] \<rparr>"

definition ex_db_race :: db where
  "ex_db_race =
     ex_db1\<lparr> QuizSession_docs := [ex_failed],
             Notification_docs :=
               [ex_notification ex_bob_id, ex_notification ex_carol_id,
                ex_notification ex_bob_id, ex_notification ex_carol_id] \<rparr>"

text \<open>A revision quiz of the student, by selection, and the calls that try to publish it.\<close>

definition ex_revision_id :: oid where "ex_revision_id = ''800000000000000000000008''"

definition ex_revision_data :: CreateQuizData where
  "ex_revision_data =
     \<lparr> cq_trainingId = ex_training_id,
       cq_title = ILocalizedString ''Revision'' ''Revision'' None None, cq_description = None,
       cq_thumbnailUrl = None, cq_creatorId = ex_alice_id, cq_quizType = REVISION,
       cq_deadline = None, cq_slug = ''revision'', cq_durationMinutes = None,
       cq_globalScore = 10, cq_allowedAttempts = None, cq_tags = None,
       cq_questionsConfig =
         Some \<lparr> qc_method = select, qc_chapterIds = None, qc_numberOfQuestions = None,
                qc_difficulty = None,
                qc_selectedQuestionIdsWithScores = Some [(ex_q1_id, None), (ex_q2_id, Some 3)] \<rparr>,
       cq_isPublic = None \<rparr>"

definition ex_revision_quiz :: "string \<Rightarrow> IQuiz" where
  "ex_revision_quiz t =
     \<lparr> qz_id = ex_revision_id, qz_training = ex_training_id,
       qz_title = ILocalizedString t t None None, qz_description = None,
       qz_thumbnailUrl = None, qz_creator = ex_alice_id, qz_quizType = REVISION,
       qz_deadline = None, qz_isPublished = False, qz_publishedAt = None,
       qz_durationMinutes = None,
       qz_questions =
         [\<lparr> questionId = ex_q1_id, score = 1 \<rparr>, \<lparr> questionId = ex_q2_id, score = 3 \<rparr>],
       qz_globalScore = 10, qz_allowedAttempts = None, qz_tags = [], qz_isPublic = False,
       qz_slug = ''revision'' \<rparr>"

definition ex_admin :: RequestUser where
  "ex_admin = \<lparr> ru_id = ''ad0000000000000000000000'', ru_role = ADMIN \<rparr>"

definition ex_update :: UpdateQuizData where
  "ex_update =
     \<lparr> uq_title = Some (ILocalizedString ''Relecture'' ''Relecture'' None None),
       uq_description = None, uq_thumbnailUrl = None, uq_deadline = None,
       uq_isPublished = Some True, uq_durationMinutes = None, uq_globalScore = None,
       uq_allowedAttempts = None, uq_tags = None, uq_questions = None, uq_isPublic = None \<rparr>"

definition ex_first :: "IQuestion list \<Rightarrow> nat \<Rightarrow> IQuestion list" where
  "ex_first xs n = take n xs"

definition ex_operations :: "operation list" where
  "ex_operations =
     [CreateQuiz ex_revision_id ex_first ex_revision_data,
      PublishQuiz ex_revision_id True ex_admin 70,
      UpdateQuiz ex_revision_id ex_update ex_request_user,
      PublishQuiz ex_revision_id True ex_request_user 80]"

text \<open>A quiz generated from the chapter of the four questions; the seed of a draw is the
  position the draw starts at.\<close>

definition ex_generated_id :: oid where "ex_generated_id = ''600000000000000000000006''"

definition ex_generate :: "nat \<Rightarrow> CreateQuizData" where
  "ex_generate n =
     \<lparr> cq_trainingId = ex_training_id,
       cq_title = ILocalizedString ''Tirage'' ''Draw'' None None, cq_description = None,
       cq_thumbnailUrl = None, cq_creatorId = ex_bob_id, cq_quizType = FORMATIVE,
       cq_deadline = Some 200, cq_slug = ''draw'', cq_durationMinutes = None,
       cq_globalScore = 10, cq_allowedAttempts = None, cq_tags = None,
       cq_questionsConfig =
         Some \<lparr> qc_method = generate, qc_chapterIds = Some [ex_chapter_id],
                qc_numberOfQuestions = Some n, qc_difficulty = Some medium,
                qc_selectedQuestionIdsWithScores = None \<rparr>,
       cq_isPublic = None \<rparr>"

definition ex_sample :: "nat \<Rightarrow> IQuestion list \<Rightarrow> nat \<Rightarrow> IQuestion list" where
  "ex_sample w xs n = take n (drop w xs)"

definition ex_seeds :: "nat \<Rightarrow> nat list" where
  "ex_seeds n = (if n = 1 then [0, 1, 2, 3] else [0])"

section \<open>Properties of starting a session\<close>

lemma js_sum_from_Nil [simp]: "js_sum_from t [] = t"
  by (simp add: js_sum_from_def)

lemma js_sum_from_Cons [simp]:
  "js_sum_from t (x # xs) = js_sum_from (js_add t (fl x)) xs"
  by (simp add: js_sum_from_def)



lemma view_fields_mem:
  "''_id'' \<in> set view_fields" "''text'' \<in> set view_fields" "''type'' \<in> set view_fields"
  "''choices'' \<in> set view_fields" "''difficulty'' \<in> set view_fields" "''tags'' \<in> set view_fields"
  "''fr'' \<in> set view_fields" "''en'' \<in> set view_fields" "''ar'' \<in> set view_fields"
  "''es'' \<in> set view_fields"
  by (simp_all add: view_fields_def)

lemma view_fields_not_sensitive: "list_all (\<lambda>k. k \<notin> set sensitive_fields) view_fields"
  by (simp add: view_fields_def sensitive_fields_def)

lemma field_names_opt_str: "field_names (JObj (opt_field k JStr x)) = (case x of None \<Rightarrow> [] | Some v \<Rightarrow> [k])"
  by (cases x) (simp_all add: opt_field_def)

lemma field_names_JObj_append:
  "field_names (JObj (a @ b)) = field_names (JObj a) @ field_names (JObj b)"
  by simp

lemma field_names_ls: "set (field_names (ILocalizedString_doc t)) \<subseteq> set view_fields"
  unfolding ILocalizedString_doc_def field_names_JObj_append field_names_opt_str
  by (cases "ls_ar t"; cases "ls_es t") (simp_all add: view_fields_mem)

lemma field_names_lc: "set (field_names (ILocalizedChoice_doc t)) \<subseteq> set view_fields"
  unfolding ILocalizedChoice_doc_def field_names_JObj_append field_names_opt_str
  by (cases "lc_en t"; cases "lc_ar t"; cases "lc_es t") (simp_all add: view_fields_mem)

lemma filter_opt_field_drop: "(\<And>v. \<not> P (k, v)) \<Longrightarrow> filter P (opt_field k f x) = []"
  by (cases x) (simp_all add: opt_field_def)

lemma keep_text_choice:
  "keep_fields [''text''] (IChoice_doc c) = JObj [(''text'', ILocalizedChoice_doc (c_text c))]"
  by (simp add: keep_fields_def IChoice_doc_def filter_opt_field_drop)

lemma select_entry_drop:
  "k \<noteq> ''_id'' \<Longrightarrow> k \<notin> set whole \<Longrightarrow> map_of nested k = None \<Longrightarrow>
   concat (map (select_entry whole nested) (opt_field k f x)) = []"
  by (cases x) (simp_all add: opt_field_def select_entry_def)

lemma select_entry_nested:
  "k \<noteq> ''_id'' \<Longrightarrow> k \<notin> set whole \<Longrightarrow> map_of nested k = Some ks \<Longrightarrow>
   concat (map (select_entry whole nested) (opt_field k f x)) = opt_field k (\<lambda>v. select_sub ks (f v)) x"
  by (cases x) (simp_all add: opt_field_def select_entry_def)

lemma select_sub_choices:
  "select_sub [''text''] (JArr (map IChoice_doc cs)) =
     JArr (map (\<lambda>c. JObj [(''text'', ILocalizedChoice_doc (c_text c))]) cs)"
  by (simp add: select_sub_def keep_text_choice)

lemma select_client_question_doc:
  "select_client_question (IQuestion_doc q) =
     JObj ([(''_id'', JId (q_id q)), (''text'', ILocalizedString_doc (q_text q)),
            (''type'', JStr (QuestionType_str (q_type q)))]
           @ opt_field ''choices''
               (\<lambda>cs. JArr (map (\<lambda>c. JObj [(''text'', ILocalizedChoice_doc (c_text c))]) cs)) (q_choices q)
           @ [(''difficulty'', JStr (Difficulty_str (q_difficulty q))),
              (''tags'', JArr (map JStr (q_tags q)))])"
  by (simp add: select_client_question_def select_fields_def IQuestion_doc_def
      select_entry_drop select_entry_nested select_sub_choices)
     (simp add: select_entry_def)



lemma fn_tags: "field_names (JArr (map JStr ts)) = []"
  by (induction ts) simp_all

lemma fn_choices:
  "set (field_names (JArr (map (\<lambda>c. JObj [(''text'', ILocalizedChoice_doc (c_text c))]) cs)))
     \<subseteq> set view_fields"
  by (induction cs) (simp_all add: view_fields_mem field_names_lc)

lemma fn_view: "set (field_names (select_client_question (IQuestion_doc q))) \<subseteq> set view_fields"
  by (cases "q_choices q")
     (simp_all add: select_client_question_doc opt_field_def fn_tags view_fields_mem
        field_names_ls fn_choices del: field_names.simps(1))

lemma fn_client: "set (field_names (clientQuestion q)) \<subseteq> set view_fields"
  by (cases "q_choices q")
     (simp_all add: clientQuestion_def clientChoices_def fn_tags view_fields_mem
        field_names_ls fn_choices del: field_names.simps(1))

lemma choices_view:
  "c \<in> set (choices_of (select_client_question (IQuestion_doc q))) \<Longrightarrow> top_fields c = [''text'']"
  by (cases "q_choices q")
     (auto simp: select_client_question_doc opt_field_def choices_of_def top_fields_def)

lemma choices_client:
  "c \<in> set (choices_of (clientQuestion q)) \<Longrightarrow> top_fields c = [''text'']"
  by (cases "q_choices q")
     (auto simp: clientQuestion_def clientChoices_def choices_of_def top_fields_def split: if_splits)


lemma session_loop_eq:
  "session_loop ps m acc =
     (js_sum_from m (map snd (found_questions ps)),
      acc @ map (\<lambda>p. initialResponse (fst p)) (found_questions ps))"
  by (induction ps m acc rule: session_loop.induct) (simp_all add: found_questions_def)

lemma findById_Some: "findById ident docs i = Some x \<Longrightarrow> x \<in> set docs \<and> ident x = i"
  by (auto simp: findById_def find_Some_iff)

lemma findById_self: "findById ident docs i = Some x \<Longrightarrow> findById ident docs (ident x) = Some x"
  by (auto simp: findById_def find_Some_iff)

lemma findById_append_fresh:
  "i \<notin> set (map ident docs) \<Longrightarrow> ident x = i \<Longrightarrow> findById ident (docs @ [x]) i = Some x"
  by (induction docs) (auto simp: findById_def)

lemma found_populated:
  "(q, sc) \<in> set (found_questions (populate_questions d items)) \<Longrightarrow>
     findById q_id (Question_docs d) (q_id q) = Some q"
  by (auto simp: found_questions_def populate_questions_def findById_self split: option.splits)

lemma cast_client: "cast_question (QView (clientQuestion q)) = QRef (q_id q)"
  by (simp add: clientQuestion_def)

lemma start_Inr:
  assumes "startQuizSessionService d newId now data = (Inr s, d')"
  obtains user quiz where
    "findById u_id (User_docs d) (sd_user data) = Some user"
    "findById qz_id (Quiz_docs d) (sd_quizId data) = Some quiz"
    "\<not> not_accessible user quiz (sd_user data)"
    "\<not> attempts_exceeded d quiz (sd_user data) (sd_quizId data)"
    "save_and_return d (newSession d newId now data quiz
        (js_sum (map snd (found_questions (populate_questions d (qz_questions quiz)))))
        (map (\<lambda>p. initialResponse (fst p)) (found_questions (populate_questions d (qz_questions quiz)))))
      = (Inr s, d')"
  using assms
  by (auto simp: startQuizSessionService_def session_loop_eq js_sum_def split: option.splits if_splits)

lemma save_Inr:
  assumes "save_and_return d ns = (Inr s, d')" and "s_id ns \<notin> set (map s_id (QuizSession_docs d))"
  shows "QuizSessionSchema_valid ns"
    and "d' = d\<lparr> QuizSession_docs := QuizSession_docs d @ [ns\<lparr> s_responses := map cast_response (s_responses ns) \<rparr>] \<rparr>"
    and "s = populate_session d' (ns\<lparr> s_responses := map cast_response (s_responses ns) \<rparr>)"
proof -
  let ?saved = "ns\<lparr> s_responses := map cast_response (s_responses ns) \<rparr>"
  have f: "findById s_id (QuizSession_docs d @ [?saved]) (s_id ?saved) = Some ?saved"
    using assms(2) by (intro findById_append_fresh) simp_all
  show "QuizSessionSchema_valid ns" using assms(1) by (auto simp: save_and_return_def split: if_splits)
  then show "d' = d\<lparr> QuizSession_docs := QuizSession_docs d @ [?saved] \<rparr>"
    using assms(1) f by (auto simp: save_and_return_def Let_def split: if_splits option.splits)
  then show "s = populate_session d' ?saved"
    using assms(1) f \<open>QuizSessionSchema_valid ns\<close>
    by (auto simp: save_and_return_def Let_def split: if_splits option.splits)
qed


text \<open>
  Claim C1. For every successful \<^verbatim>\<open>startQuizSessionService\<close> result, every response of the
  returned session carries a question view, no field of that view at any depth is named
  \<^verbatim>\<open>isCorrect\<close>, \<^verbatim>\<open>correctAnswerFormula\<close> or \<^verbatim>\<open>explanation\<close>, and every entry of its \<^verbatim>\<open>choices\<close>
  has the single field \<^verbatim>\<open>text\<close>. The id given to the new session is one no stored
  session has.
\<close>

theorem startSession_redacted:
  assumes "startQuizSessionService d newId now data = (Inr s, d')"
    and "newId \<notin> set (map s_id (QuizSession_docs d))"
  shows "\<forall>r \<in> set (s_responses s). \<exists>v. r_question r = QView v \<and>
           (\<forall>k \<in> set sensitive_fields. k \<notin> set (field_names v)) \<and>
           (\<forall>c \<in> set (choices_of v). top_fields c = [''text''])"
proof
  fix r assume r: "r \<in> set (s_responses s)"
  from assms(1) obtain user quiz where
    sv: "save_and_return d (newSession d newId now data quiz
        (js_sum (map snd (found_questions (populate_questions d (qz_questions quiz)))))
        (map (\<lambda>p. initialResponse (fst p)) (found_questions (populate_questions d (qz_questions quiz)))))
      = (Inr s, d')"
    by (rule start_Inr)
  let ?fq = "found_questions (populate_questions d (qz_questions quiz))"
  let ?ns = "newSession d newId now data quiz (js_sum (map snd ?fq)) (map (\<lambda>p. initialResponse (fst p)) ?fq)"
  have id: "s_id ?ns = newId" by (simp add: newSession_def)
  have d': "d' = d\<lparr> QuizSession_docs := QuizSession_docs d @ [?ns\<lparr> s_responses := map cast_response (s_responses ?ns) \<rparr>] \<rparr>"
    and s: "s = populate_session d' (?ns\<lparr> s_responses := map cast_response (s_responses ?ns) \<rparr>)"
    using save_Inr(2,3)[OF sv] assms(2) id by simp_all
  have qd: "Question_docs d' = Question_docs d" by (simp add: d')
  from r obtain q sc where q: "(q, sc) \<in> set ?fq"
    and rq: "r_question r = populate_question d' (cast_question (r_question (initialResponse q)))"
    by (auto simp: s populate_session_def newSession_def cast_response_def)
  have "r_question r = QView (select_client_question (IQuestion_doc q))"
    using found_populated[OF q] by (simp add: rq initialResponse_def cast_client populate_question_def qd)
  moreover have "\<forall>k \<in> set sensitive_fields. k \<notin> set (field_names (select_client_question (IQuestion_doc q)))"
    using fn_view[of q] view_fields_not_sensitive by (auto simp: list_all_iff)
  moreover have "\<forall>c \<in> set (choices_of (select_client_question (IQuestion_doc q))). top_fields c = [''text'']"
    using choices_view by blast
  ultimately show "\<exists>v. r_question r = QView v \<and>
           (\<forall>k \<in> set sensitive_fields. k \<notin> set (field_names v)) \<and>
           (\<forall>c \<in> set (choices_of v). top_fields c = [''text''])"
    by blast
qed

text \<open>
  Claim C5. On a quiz whose \<^verbatim>\<open>allowedAttempts\<close> is set: when the number of stored sessions
  of the same user and quiz has reached it, the call fails and the store is unchanged, with
  \<^verbatim>\<open>AttemptsExceeded\<close> once the guard on access has passed; and every session that is
  created, stored and returned, has \<^verbatim>\<open>attemptNumber\<close> one more than that number.
\<close>

theorem startSession_attempts:
  assumes user: "findById u_id (User_docs d) (sd_user data) = Some user"
    and quiz: "findById qz_id (Quiz_docs d) (sd_quizId data) = Some quiz"
    and allowed: "qz_allowedAttempts quiz = Some allowed"
    and fresh: "newId \<notin> set (map s_id (QuizSession_docs d))"
  shows "(allowed \<le> of_nat (countDocuments d (sd_user data) (sd_quizId data)) \<longrightarrow>
            (\<exists>e. startQuizSessionService d newId now data = (Inl e, d)) \<and>
            (\<not> not_accessible user quiz (sd_user data) \<longrightarrow>
               startQuizSessionService d newId now data = (Inl (AttemptsExceeded allowed), d)))
       \<and> (\<forall>s d'. startQuizSessionService d newId now data = (Inr s, d') \<longrightarrow>
            s_attemptNumber s = 1 + countDocuments d (sd_user data) (sd_quizId data) \<and>
            (\<exists>stored. QuizSession_docs d' = QuizSession_docs d @ [stored] \<and> s_id stored = newId \<and>
               s_attemptNumber stored = 1 + countDocuments d (sd_user data) (sd_quizId data)))"
proof (intro conjI impI allI)
  assume "allowed \<le> of_nat (countDocuments d (sd_user data) (sd_quizId data))"
  then have ex: "attempts_exceeded d quiz (sd_user data) (sd_quizId data)"
    by (simp add: attempts_exceeded_def allowed)
  show "\<exists>e. startQuizSessionService d newId now data = (Inl e, d)"
    using ex by (simp add: startQuizSessionService_def user quiz)
  assume "\<not> not_accessible user quiz (sd_user data)"
  then show "startQuizSessionService d newId now data = (Inl (AttemptsExceeded allowed), d)"
    using ex by (simp add: startQuizSessionService_def user quiz allowed)
next
  fix s d' assume st: "startQuizSessionService d newId now data = (Inr s, d')"
  from st obtain user' quiz' where
    sv: "save_and_return d (newSession d newId now data quiz'
        (js_sum (map snd (found_questions (populate_questions d (qz_questions quiz')))))
        (map (\<lambda>p. initialResponse (fst p)) (found_questions (populate_questions d (qz_questions quiz')))))
      = (Inr s, d')"
    by (rule start_Inr)
  let ?fq = "found_questions (populate_questions d (qz_questions quiz'))"
  let ?ns = "newSession d newId now data quiz' (js_sum (map snd ?fq)) (map (\<lambda>p. initialResponse (fst p)) ?fq)"
  have id: "s_id ?ns = newId" by (simp add: newSession_def)
  have d': "d' = d\<lparr> QuizSession_docs := QuizSession_docs d @ [?ns\<lparr> s_responses := map cast_response (s_responses ?ns) \<rparr>] \<rparr>"
    and s: "s = populate_session d' (?ns\<lparr> s_responses := map cast_response (s_responses ?ns) \<rparr>)"
    using save_Inr(2,3)[OF sv] fresh id by simp_all
  show "s_attemptNumber s = 1 + countDocuments d (sd_user data) (sd_quizId data)"
    by (simp add: s populate_session_def newSession_def)
  show "\<exists>stored. QuizSession_docs d' = QuizSession_docs d @ [stored] \<and> s_id stored = newId \<and>
               s_attemptNumber stored = 1 + countDocuments d (sd_user data) (sd_quizId data)"
    by (simp add: d' newSession_def)
qed

section \<open>Properties of submitting a session\<close>





lemma same_documents_refl: "same_documents d d"
  by (simp add: same_documents_def)

lemma same_documents_trans: "same_documents a b \<Longrightarrow> same_documents b c \<Longrightarrow> same_documents a c"
  by (simp add: same_documents_def)

lemma createNotification_same:
  "createNotificationService d data = (a, b) \<Longrightarrow> same_documents d b"
proof (cases "Types_ObjectId_isValid (nd_recipientId data)")
  case False
  assume "createNotificationService d data = (a, b)"
  with False show ?thesis by (simp add: createNotificationService_def same_documents_refl)
next
  case True
  assume c: "createNotificationService d data = (a, b)"
  show ?thesis
  proof (cases "findById u_id (User_docs d) (nd_recipientId data)")
    case None
    with True c show ?thesis by (simp add: createNotificationService_def same_documents_refl)
  next
    case (Some u)
    with True c show ?thesis
      by (auto simp: createNotificationService_def Let_def same_documents_def)
  qed
qed

lemma notify_loop_same:
  "notify_loop d rs msg sid = (r, d') \<Longrightarrow> same_documents d d'"
proof (induction rs arbitrary: d)
  case Nil
  then show ?case by (simp add: same_documents_refl)
next
  case (Cons x xs)
  obtain a b where c: "createNotificationService d
             \<lparr> nd_recipientId = x, nd_type = QUIZ_GRADED, nd_message = msg,
               nd_relatedEntityId = Some sid, nd_relatedEntityType = Some ''QuizSession'' \<rparr> = (a, b)"
    by (cases "createNotificationService d
             \<lparr> nd_recipientId = x, nd_type = QUIZ_GRADED, nd_message = msg,
               nd_relatedEntityId = Some sid, nd_relatedEntityType = Some ''QuizSession'' \<rparr>")
  have db: "same_documents d b" using c by (rule createNotification_same)
  show ?case
  proof (cases a)
    case (Inl e)
    with Cons.prems c have "d' = b" by simp
    with db show ?thesis by simp
  next
    case (Inr n)
    with Cons.prems c have "notify_loop b xs msg sid = (r, d')" by simp
    from Cons.IH[OF this] db show ?thesis by (rule same_documents_trans[rotated])
  qed
qed

lemma notify_graded_same:
  "notify_graded d u = (r, d') \<Longrightarrow> same_documents d d'"
proof -
  assume a: "notify_graded d u = (r, d')"
  show ?thesis
  proof (cases "findById qz_id (Quiz_docs d) (s_quiz u)")
    case None
    with a show ?thesis by (simp add: notify_graded_def same_documents_refl)
  next
    case (Some quiz)
    show ?thesis
    proof (cases "findById u_id (User_docs d) (s_user u)")
      case None
      with a Some show ?thesis by (simp add: notify_graded_def Let_def same_documents_refl)
    next
      case (Some user)
      let ?nl = "notify_loop d (recipients (qz_creator quiz)
                   (case findById t_id (Training_docs d) (qz_training quiz) of
                      None \<Rightarrow> [] | Some training \<Rightarrow> t_teachers training))
                   (graded_message (ls_fr (qz_title quiz)) (u_username user)) (s_id u)"
      obtain e b where nl: "?nl = (e, b)" by (cases ?nl)
      have "d' = b" using a \<open>findById qz_id (Quiz_docs d) (s_quiz u) = Some quiz\<close> Some nl
        by (cases e) (simp_all add: notify_graded_def Let_def)
      with notify_loop_same[OF nl] show ?thesis by simp
    qed
  qed
qed


lemma submit_read_Inr:
  assumes "submit_read d sessionId dur uid = Inr (session, manifest)"
  shows "findById s_id (QuizSession_docs d) sessionId = Some session"
    and "\<exists>user. findById u_id (User_docs d) (s_user session) = Some user"
    and "uid = ''[object Object]''" and "\<not> s_isCompleted session"
    and "\<not> js_lt (fl dur) (Finite 0)"
  using assms by (auto simp: submit_read_def Object_toString_def split: option.splits if_splits)

lemma submit_write_cases:
  assumes "submit_write d sessionId data (session, manifest) = (r, d')"
    and "findById s_id (QuizSession_docs d) sessionId = Some stored"
  obtains (invalid) e where
      "grade_loop (quizQuestionsMap manifest) (s_language session) (sub_responses data) (Finite 0) [] = Inl e"
      "r = Inl e" "d' = d"
  | (rejected) total upd where
      "grade_loop (quizQuestionsMap manifest) (s_language session) (sub_responses data) (Finite 0) [] = Inr (total, upd)"
      "\<not> update_valid total (finalCalculatedScore session total) (sub_durationSeconds data) upd"
      "r = Inl UpdateValidationError" "d' = d"
  | (updated) total upd where
      "grade_loop (quizQuestionsMap manifest) (s_language session) (sub_responses data) (Finite 0) [] = Inr (total, upd)"
      "update_valid total (finalCalculatedScore session total) (sub_durationSeconds data) upd"
      "notify_graded
         (d\<lparr> QuizSession_docs := update_first sessionId
               (session_update upd total (finalCalculatedScore session total) (sub_durationSeconds data)
                  (passStatus session (finalCalculatedScore session total))) (QuizSession_docs d) \<rparr>)
         (session_update upd total (finalCalculatedScore session total) (sub_durationSeconds data)
                  (passStatus session (finalCalculatedScore session total)) stored) = (r, d')"
proof (cases "grade_loop (quizQuestionsMap manifest) (s_language session) (sub_responses data) (Finite 0) []")
  case (Inl e)
  then show ?thesis using assms invalid by (simp add: submit_write_def)
next
  case (Inr p)
  obtain total upd where p: "p = (total, upd)" by (cases p)
  show ?thesis
  proof (cases "update_valid total (finalCalculatedScore session total) (sub_durationSeconds data) upd")
    case False
    then show ?thesis using assms Inr p rejected by (simp add: submit_write_def Let_def)
  next
    case True
    then show ?thesis using assms Inr p updated[of total upd]
      by (simp add: submit_write_def Let_def findByIdAndUpdate_def)
  qed
qed


lemma submit_Inr:
  assumes "submitQuizSessionService d sessionId data uid = (Inr s, d')"
  obtains session manifest total upd where
    "submit_read d sessionId (sub_durationSeconds data) uid = Inr (session, manifest)"
    "findById s_id (QuizSession_docs d) sessionId = Some session"
    "grade_loop (quizQuestionsMap manifest) (s_language session) (sub_responses data) (Finite 0) [] = Inr (total, upd)"
    "update_valid total (finalCalculatedScore session total) (sub_durationSeconds data) upd"
    "notify_graded
         (d\<lparr> QuizSession_docs := update_first sessionId
               (session_update upd total (finalCalculatedScore session total) (sub_durationSeconds data)
                  (passStatus session (finalCalculatedScore session total))) (QuizSession_docs d) \<rparr>)
         (session_update upd total (finalCalculatedScore session total) (sub_durationSeconds data)
                  (passStatus session (finalCalculatedScore session total)) session) = (Inr s, d')"
proof -
  from assms obtain snap where r: "submit_read d sessionId (sub_durationSeconds data) uid = Inr snap"
    and w: "submit_write d sessionId data snap = (Inr s, d')"
    by (cases "submit_read d sessionId (sub_durationSeconds data) uid")
       (simp_all add: submitQuizSessionService_def after_read_def)
  obtain session manifest where snap: "snap = (session, manifest)" by (cases snap)
  note f = submit_read_Inr(1)[OF r[unfolded snap]]
  from w[unfolded snap] f show ?thesis
  proof (cases rule: submit_write_cases)
    case (invalid e)
    then show ?thesis by simp
  next
    case (rejected total upd)
    then show ?thesis by simp
  next
    case (updated total upd)
    then show ?thesis using that r snap f by blast
  qed
qed









lemma createNotification_error:
  "createNotificationService d data = (Inl e, d') \<Longrightarrow> e = InvalidRecipientId \<or> e = RecipientNotFound"
  by (auto simp: createNotificationService_def Let_def split: if_splits option.splits)

lemma notify_loop_error:
  "notify_loop d rs msg sid = (Some e, d') \<Longrightarrow> e = InvalidRecipientId \<or> e = RecipientNotFound"
proof (induction rs arbitrary: d)
  case Nil
  then show ?case by simp
next
  case (Cons x xs)
  obtain a b where c: "createNotificationService d
             \<lparr> nd_recipientId = x, nd_type = QUIZ_GRADED, nd_message = msg,
               nd_relatedEntityId = Some sid, nd_relatedEntityType = Some ''QuizSession'' \<rparr> = (a, b)"
    by (cases "createNotificationService d
             \<lparr> nd_recipientId = x, nd_type = QUIZ_GRADED, nd_message = msg,
               nd_relatedEntityId = Some sid, nd_relatedEntityType = Some ''QuizSession'' \<rparr>")
  show ?case
  proof (cases a)
    case (Inl e')
    with Cons.prems c have "e' = e" by simp
    with c Inl createNotification_error show ?thesis by blast
  next
    case (Inr n)
    with Cons.prems c have "notify_loop b xs msg sid = (Some e, d')" by simp
    from Cons.IH[OF this] show ?thesis .
  qed
qed



lemma grade_qcm_iff_set:
  assumes "distinct (userAnswers a)" and "distinct (correctChoiceTexts lang choices)"
  shows "grade_qcm lang choices a \<longleftrightarrow>
           Some ` set (userAnswers a) = set (correctChoiceTexts lang choices)"
proof
  assume g: "grade_qcm lang choices a"
  then have len: "length (correctChoiceTexts lang choices) = length (userAnswers a)"
    and sub: "Some ` set (userAnswers a) \<subseteq> set (correctChoiceTexts lang choices)"
    by (auto simp: grade_qcm_def list_all_iff)
  have "card (Some ` set (userAnswers a)) = length (userAnswers a)"
    using assms(1) by (simp add: card_image distinct_card)
  moreover have "card (set (correctChoiceTexts lang choices)) = length (correctChoiceTexts lang choices)"
    using assms(2) by (simp add: distinct_card)
  ultimately show "Some ` set (userAnswers a) = set (correctChoiceTexts lang choices)"
    using sub len by (intro card_subset_eq) simp_all
next
  assume e: "Some ` set (userAnswers a) = set (correctChoiceTexts lang choices)"
  have "length (userAnswers a) = card (Some ` set (userAnswers a))"
    using assms(1) by (simp add: card_image distinct_card)
  also have "\<dots> = length (correctChoiceTexts lang choices)"
    using assms(2) e by (simp add: distinct_card)
  finally show "grade_qcm lang choices a"
    using e by (auto simp: grade_qcm_def list_all_iff)
qed

lemma grade_qcm_one_of_two:
  "length (filter c_isCorrect choices) = 2 \<Longrightarrow> \<not> grade_qcm lang choices (Text s)"
  by (simp add: grade_qcm_def correctChoiceTexts_def userAnswers_def)





lemma notify_graded_Inl:
  "notify_graded d u = (Inl e, d') \<Longrightarrow>
     e = UncaughtTypeError \<or> e = InvalidRecipientId \<or> e = RecipientNotFound"
proof -
  assume n: "notify_graded d u = (Inl e, d')"
  show ?thesis
  proof (cases "findById qz_id (Quiz_docs d) (s_quiz u)")
    case None
    with n show ?thesis by (auto simp: notify_graded_def)
  next
    case (Some quiz)
    show ?thesis
    proof (cases "findById u_id (User_docs d) (s_user u)")
      case None
      with n Some show ?thesis by (auto simp: notify_graded_def Let_def)
    next
      case (Some user)
      let ?nl = "notify_loop d (recipients (qz_creator quiz)
                   (case findById t_id (Training_docs d) (qz_training quiz) of
                      None \<Rightarrow> [] | Some training \<Rightarrow> t_teachers training))
                   (graded_message (ls_fr (qz_title quiz)) (u_username user)) (s_id u)"
      obtain x b where nl: "?nl = (x, b)" by (cases ?nl)
      have "x = Some e" using n \<open>findById qz_id (Quiz_docs d) (s_quiz u) = Some quiz\<close> Some nl
        by (cases x) (simp_all add: notify_graded_def Let_def)
      with notify_loop_error[OF nl[unfolded \<open>x = Some e\<close>]] show ?thesis by auto
    qed
  qed
qed







lemma session_update_fields:
  "s_quiz (session_update upd t fin dur st x) = s_quiz x"
  "s_user (session_update upd t fin dur st x) = s_user x"
  by (simp_all add: session_update_def)


text \<open>The guard on the owner lets one string through. The id of a user has 24 characters,
  so a call under the id of any user fails, the owner of the session included, and
  leaves the store as it was.\<close>

lemma submit_requester:
  "submitQuizSessionService d sessionId data uid = (Inr s, d') \<Longrightarrow> uid = ''[object Object]''"
  by (erule submit_Inr) (rule submit_read_Inr(3))

lemma submit_under_user_id:
  assumes "Types_ObjectId_isValid uid"
  shows "\<exists>e. submitQuizSessionService d sessionId data uid = (Inl e, d)"
    and "findById s_id (QuizSession_docs d) sessionId = Some session \<Longrightarrow>
         findById u_id (User_docs d) (s_user session) = Some user \<Longrightarrow>
         submitQuizSessionService d sessionId data uid = (Inl NotAuthorizedToSubmit, d)"
proof -
  from assms have "length uid = 24" by (simp add: Types_ObjectId_isValid_def)
  then have ne: "uid \<noteq> ''[object Object]''" by auto
  show "\<exists>e. submitQuizSessionService d sessionId data uid = (Inl e, d)"
    using ne
    by (auto simp: submitQuizSessionService_def after_read_def submit_read_def Object_toString_def
        split: option.splits)
  show "submitQuizSessionService d sessionId data uid = (Inl NotAuthorizedToSubmit, d)"
    if "findById s_id (QuizSession_docs d) sessionId = Some session"
      and "findById u_id (User_docs d) (s_user session) = Some user"
    using ne that
    by (simp add: submitQuizSessionService_def after_read_def submit_read_def Object_toString_def)
qed

section \<open>Properties of the quiz service\<close>

lemma set_replace_by_id: "set (replace_by_id ident x ys) \<subseteq> insert x (set ys)"
  by (induction ys) auto

lemma save_quiz_docs:
  "save_quiz d quiz e = (r, d') \<Longrightarrow> set (Quiz_docs d') \<subseteq> insert quiz (set (Quiz_docs d))"
  using set_replace_by_id[of qz_id quiz "Quiz_docs d"]
  by (auto simp: save_quiz_def split: if_splits)

lemma assign_fields_kind:
  "qz_quizType (assign_fields data quiz) = qz_quizType quiz"
  "qz_isPublished (assign_fields data quiz) = qz_isPublished quiz"
  by (simp_all add: assign_fields_def)

lemma create_cases:
  assumes "createQuizService d newId sample data = (r, d')"
  obtains (guard) e where "create_guards d data = Inl e" "r = Inl e" "d' = d"
  | (config) creator training e where "create_guards d data = Inr (creator, training)"
      "quizQuestions d sample (cq_questionsConfig data) = Inl e" "r = Inl e" "d' = d"
  | (invalid) creator training questions where "create_guards d data = Inr (creator, training)"
      "quizQuestions d sample (cq_questionsConfig data) = Inr questions"
      "\<not> QuizSchema_valid (newQuiz newId creator data questions)"
      "r = Inl QuizValidationError" "d' = d"
  | (created) creator training questions where "create_guards d data = Inr (creator, training)"
      "quizQuestions d sample (cq_questionsConfig data) = Inr questions"
      "QuizSchema_valid (newQuiz newId creator data questions)"
      "r = Inr (newQuiz newId creator data questions)"
      "Quiz_docs d' = Quiz_docs d @ [newQuiz newId creator data questions]"
proof (cases "create_guards d data")
  case (Inl e)
  with assms have "r = Inl e" "d' = d" by (simp_all add: createQuizService_def)
  with Inl show ?thesis by (rule guard)
next
  case (Inr p)
  obtain creator training where p: "p = (creator, training)" by (cases p)
  note g = Inr[unfolded p]
  show ?thesis
  proof (cases "quizQuestions d sample (cq_questionsConfig data)")
    case (Inl e)
    with assms g have "r = Inl e" "d' = d" by (simp_all add: createQuizService_def)
    with g Inl show ?thesis by (rule config)
  next
    case qs: (Inr questions)
    show ?thesis
    proof (cases "QuizSchema_valid (newQuiz newId creator data questions)")
      case False
      with assms g qs have "r = Inl QuizValidationError" "d' = d"
        by (simp_all add: createQuizService_def Let_def)
      with g qs False show ?thesis by (rule invalid)
    next
      case True
      with assms g qs have "r = Inr (newQuiz newId creator data questions)"
        "Quiz_docs d' = Quiz_docs d @ [newQuiz newId creator data questions]"
        by (auto simp: createQuizService_def Let_def)
      with g qs True show ?thesis by (rule created)
    qed
  qed
qed

lemma create_docs:
  assumes "createQuizService d newId sample data = (r, d')"
  shows "(\<exists>e. r = Inl e \<and> d' = d) \<or>
         (\<exists>quiz. r = Inr quiz \<and> \<not> qz_isPublished quiz \<and> Quiz_docs d' = Quiz_docs d @ [quiz])"
  using assms by (cases rule: create_cases) (simp_all add: newQuiz_def)

lemma update_docs:
  assumes "updateQuizService d quizId data u = (r, d')"
    and "\<forall>q \<in> set (Quiz_docs d). \<not> published_revision q"
  shows "\<forall>q \<in> set (Quiz_docs d'). \<not> published_revision q"
proof (cases "Types_ObjectId_isValid quizId")
  case False
  with assms show ?thesis by (simp add: updateQuizService_def)
next
  case True
  show ?thesis
  proof (cases "findById qz_id (Quiz_docs d) quizId")
    case None
    with assms True show ?thesis by (simp add: updateQuizService_def)
  next
    case (Some quiz)
    then have q: "\<not> published_revision quiz" using assms(2) findById_Some[OF Some] by blast
    have k: "\<not> published_revision (assign_fields data quiz)"
      "\<And>qs. \<not> published_revision ((assign_fields data quiz)\<lparr>qz_questions := qs\<rparr>)"
      using q by (simp_all add: published_revision_def assign_fields_kind)
    from assms(1) True Some consider "d' = d"
      | "save_quiz d (assign_fields data quiz) QuizValidationError = (r, d')"
      | qs where "save_quiz d ((assign_fields data quiz)\<lparr>qz_questions := qs\<rparr>) QuizValidationError = (r, d')"
      by (auto simp: updateQuizService_def Let_def split: if_splits option.splits)
    then show ?thesis
    proof cases
      case 1
      with assms(2) show ?thesis by simp
    next
      case 2
      from save_quiz_docs[OF 2] k(1) assms(2) show ?thesis by blast
    next
      case 3
      from save_quiz_docs[OF 3] k(2) assms(2) show ?thesis by blast
    qed
  qed
qed

lemma publish_docs:
  assumes "publishQuizService d quizId ps u now = (r, d')"
    and "\<forall>q \<in> set (Quiz_docs d). \<not> published_revision q"
  shows "\<forall>q \<in> set (Quiz_docs d'). \<not> published_revision q"
proof (cases "Types_ObjectId_isValid quizId")
  case False
  with assms show ?thesis by (simp add: publishQuizService_def)
next
  case True
  show ?thesis
  proof (cases "findById qz_id (Quiz_docs d) quizId")
    case None
    with assms True show ?thesis by (simp add: publishQuizService_def)
  next
    case (Some quiz)
    let ?quiz = "quiz\<lparr> qz_isPublished := ps, qz_publishedAt := (if ps then Some now else None) \<rparr>"
    from assms(1) True Some consider "d' = d"
      | "\<not> (qz_quizType quiz = REVISION \<and> ps)" "save_quiz d ?quiz PublishFailed = (r, d')"
      by (auto simp: publishQuizService_def Let_def split: if_splits)
    then show ?thesis
    proof cases
      case 1
      with assms(2) show ?thesis by simp
    next
      case 2
      from 2(1) have "\<not> published_revision ?quiz" by (auto simp: published_revision_def)
      with save_quiz_docs[OF 2(2)] assms(2) show ?thesis by blast
    qed
  qed
qed

lemma delete_docs:
  "deleteQuizService d quizId u = (r, d') \<Longrightarrow> set (Quiz_docs d') \<subseteq> set (Quiz_docs d)"
  by (auto simp: deleteQuizService_def Let_def split: if_splits option.splits)

lemma start_quiz_docs:
  "Quiz_docs (snd (startQuizSessionService d newId now data)) = Quiz_docs d"
  by (auto simp: startQuizSessionService_def save_and_return_def Let_def
      split: option.splits if_splits prod.splits)

lemma submit_quiz_docs:
  "Quiz_docs (snd (submitQuizSessionService d sessionId data uid)) = Quiz_docs d"
proof (cases "submit_read d sessionId (sub_durationSeconds data) uid")
  case (Inl e)
  then show ?thesis by (simp add: submitQuizSessionService_def after_read_def)
next
  case (Inr snap)
  obtain session manifest where snap: "snap = (session, manifest)" by (cases snap)
  obtain r d' where w: "submit_write d sessionId data (session, manifest) = (r, d')"
    by (cases "submit_write d sessionId data (session, manifest)")
  from w submit_read_Inr(1)[OF Inr[unfolded snap]] have "Quiz_docs d' = Quiz_docs d"
  proof (cases rule: submit_write_cases)
    case (updated total upd)
    from notify_graded_same[OF updated(3)] show ?thesis by (simp add: same_documents_def)
  qed simp_all
  with w Inr snap show ?thesis by (simp add: submitQuizSessionService_def after_read_def)
qed

lemma step_keeps:
  assumes "\<forall>q \<in> set (Quiz_docs d). \<not> published_revision q"
  shows "\<forall>q \<in> set (Quiz_docs (step d op)). \<not> published_revision q"
proof (cases op)
  case (CreateQuiz newId sample data)
  obtain r d' where c: "createQuizService d newId sample data = (r, d')"
    by (cases "createQuizService d newId sample data")
  from create_docs[OF c] assms c CreateQuiz show ?thesis
    by (auto simp: published_revision_def)
next
  case (UpdateQuiz quizId data u)
  obtain r d' where c: "updateQuizService d quizId data u = (r, d')"
    by (cases "updateQuizService d quizId data u")
  from update_docs[OF c assms] c UpdateQuiz show ?thesis by simp
next
  case (PublishQuiz quizId ps u now)
  obtain r d' where c: "publishQuizService d quizId ps u now = (r, d')"
    by (cases "publishQuizService d quizId ps u now")
  from publish_docs[OF c assms] c PublishQuiz show ?thesis by simp
next
  case (DeleteQuiz quizId u)
  obtain r d' where c: "deleteQuizService d quizId u = (r, d')"
    by (cases "deleteQuizService d quizId u")
  from delete_docs[OF c] assms c DeleteQuiz show ?thesis by auto
next
  case (StartSession newId now data)
  with assms show ?thesis by (simp add: start_quiz_docs)
next
  case (SubmitSession sessionId data uid)
  with assms show ?thesis by (simp add: submit_quiz_docs)
qed

lemma run_keeps:
  "\<forall>q \<in> set (Quiz_docs d). \<not> published_revision q \<Longrightarrow>
   \<forall>q \<in> set (Quiz_docs (run d ops)). \<not> published_revision q"
  unfolding run_def
proof (induction ops arbitrary: d)
  case Nil
  then show ?case by simp
next
  case (Cons op ops)
  from step_keeps[OF Cons.prems] have "\<forall>q \<in> set (Quiz_docs (step d op)). \<not> published_revision q" .
  from Cons.IH[OF this] show ?case by simp
qed

text \<open>
  Claim C7. From a store that holds no published revision quiz, no sequence of calls of
  \<^verbatim>\<open>createQuizService\<close>, \<^verbatim>\<open>updateQuizService\<close>, \<^verbatim>\<open>publishQuizService\<close>, \<^verbatim>\<open>deleteQuizService\<close>,
  \<^verbatim>\<open>startQuizSessionService\<close> and \<^verbatim>\<open>submitQuizSessionService\<close>, whatever their arguments, leads
  to a store that holds one. Every quiz that \<^verbatim>\<open>createQuizService\<close> creates is unpublished and
  is appended to the stored quizzes; and \<^verbatim>\<open>publishQuizService\<close> with the status \<^verbatim>\<open>true\<close> on a
  stored revision quiz always fails and leaves the store as it was, with
  \<^verbatim>\<open>RevisionCannotBePublished\<close> once the guards on the id and on the role have passed.
\<close>

theorem revision_never_published:
  assumes "\<forall>q \<in> set (Quiz_docs d). \<not> published_revision q"
  shows "(\<forall>q \<in> set (Quiz_docs (run d ops)). \<not> published_revision q) \<and>
         (\<forall>newId sample data quiz d'.
            createQuizService d newId sample data = (Inr quiz, d') \<longrightarrow>
              \<not> qz_isPublished quiz \<and> Quiz_docs d' = Quiz_docs d @ [quiz]) \<and>
         (\<forall>quizId quiz u now.
            findById qz_id (Quiz_docs d) quizId = Some quiz \<and> qz_quizType quiz = REVISION \<longrightarrow>
              (\<exists>e. publishQuizService d quizId True u now = (Inl e, d)) \<and>
              (Types_ObjectId_isValid quizId \<and> isAdminOrManager u \<longrightarrow>
                 publishQuizService d quizId True u now = (Inl RevisionCannotBePublished, d)))"
proof (intro conjI allI impI)
  show "\<forall>q \<in> set (Quiz_docs (run d ops)). \<not> published_revision q"
    using assms by (rule run_keeps)
next
  fix newId sample data quiz d'
  assume c: "createQuizService d newId sample data = (Inr quiz, d')"
  from create_docs[OF c] show "\<not> qz_isPublished quiz" and "Quiz_docs d' = Quiz_docs d @ [quiz]"
    by auto
next
  fix quizId quiz u now
  assume a: "findById qz_id (Quiz_docs d) quizId = Some quiz \<and> qz_quizType quiz = REVISION"
  then show "\<exists>e. publishQuizService d quizId True u now = (Inl e, d)"
    by (simp add: publishQuizService_def Let_def)
  assume "Types_ObjectId_isValid quizId \<and> isAdminOrManager u"
  with a show "publishQuizService d quizId True u now = (Inl RevisionCannotBePublished, d)"
    by (simp add: publishQuizService_def Let_def)
qed


lemma quizQuestions_generate:
  assumes "qc_method config = generate" "qc_chapterIds config = Some chapterIds"
    "qc_numberOfQuestions config = Some n"
  shows "quizQuestions d sample (Some config) =
     (if chapterIds = [] \<or> n = 0 then Inl GenerationParamsRequired
      else if length (sample (matching_questions d chapterIds (qc_difficulty config)) n) < n
      then Inl (InsufficientQuestions n
             (length (sample (matching_questions d chapterIds (qc_difficulty config)) n)))
      else Inr (map (\<lambda>q. \<lparr> questionId = q_id q, score = 1 \<rparr>)
             (sample (matching_questions d chapterIds (qc_difficulty config)) n)))"
  using assms
  by (cases chapterIds; cases n)
     (simp_all add: quizQuestions_def generateQuestionsForQuiz_def Let_def)

lemma valid_generated:
  assumes "qs \<noteq> []" "qs' \<noteq> []" "list_all (\<lambda>i. score i = 1) qs" "list_all (\<lambda>i. score i = 1) qs'"
  shows "QuizSchema_valid (newQuiz newId creator data qs) =
         QuizSchema_valid (newQuiz newId creator data qs')"
proof -
  have "list_all (\<lambda>item. 0 \<le> score item) qs" "list_all (\<lambda>item. 0 \<le> score item) qs'"
    using assms(3,4) by (auto simp: list_all_iff)
  with assms(1,2) show ?thesis
    by (cases "cq_deadline data") (simp_all add: QuizSchema_valid_def newQuiz_def)
qed

lemma generated_scores:
  "list_all (\<lambda>i. score i = 1) (map (\<lambda>q. \<lparr> questionId = q_id q, score = 1 \<rparr>) xs)"
  by (induction xs) simp_all

lemma generated_ids:
  "map questionId (map (\<lambda>q. \<lparr> questionId = q_id q, score = 1 \<rparr>) xs) = map q_id xs"
  by (induction xs) simp_all

text \<open>
  Claim C8. A call of \<^verbatim>\<open>createQuizService\<close> with the method \<^verbatim>\<open>generate\<close>, where \<^verbatim>\<open>M\<close> is the
  list of the stored questions that match the chapters and the difficulty, and the
  \<^verbatim>\<open>$sample\<close> stage of the store, run on the seed \<^verbatim>\<open>w\<close>, returns \<^verbatim>\<open>min n (length M)\<close> distinct
  members of \<^verbatim>\<open>M\<close>. When \<^verbatim>\<open>M\<close> has fewer than \<^verbatim>\<open>n\<close> members the call fails and the store is
  unchanged, with \<^verbatim>\<open>InsufficientQuestions\<close> once the earlier guards have passed. A quiz that
  is created has for manifest the questions the stage drew, each with the score 1: \<^verbatim>\<open>n\<close>
  distinct ids of members of \<^verbatim>\<open>M\<close>. When the stage draws every set of \<^verbatim>\<open>n\<close> members of \<^verbatim>\<open>M\<close>
  on equally many seeds, every such set is the manifest of the quiz on equally many seeds.
\<close>

theorem generate_sample:
  fixes sample_of :: "'w \<Rightarrow> IQuestion list \<Rightarrow> nat \<Rightarrow> IQuestion list"
  assumes cfg: "cq_questionsConfig data = Some config" "qc_method config = generate"
      "qc_chapterIds config = Some chapterIds" "qc_numberOfQuestions config = Some n"
    and M: "M = matching_questions d chapterIds (qc_difficulty config)"
    and ids: "distinct (map q_id (Question_docs d))"
    and stage: "\<forall>w \<in> set seeds. distinct (sample_of w M n) \<and> set (sample_of w M n) \<subseteq> set M \<and>
                  length (sample_of w M n) = min n (length M)"
    and uniform: "\<forall>A B. A \<subseteq> set M \<and> card A = n \<and> B \<subseteq> set M \<and> card B = n \<longrightarrow>
                  length (filter (\<lambda>w. set (sample_of w M n) = A) seeds) =
                  length (filter (\<lambda>w. set (sample_of w M n) = B) seeds)"
  shows "(length M < n \<longrightarrow>
            (\<forall>w \<in> set seeds.
               (\<exists>e. createQuizService d newId (sample_of w) data = (Inl e, d)) \<and>
               (\<forall>creator training.
                  create_guards d data = Inr (creator, training) \<and> chapterIds \<noteq> [] \<longrightarrow>
                  createQuizService d newId (sample_of w) data =
                    (Inl (InsufficientQuestions n (length M)), d)))) \<and>
         (\<forall>w \<in> set seeds. \<forall>quiz d'.
            createQuizService d newId (sample_of w) data = (Inr quiz, d') \<longrightarrow>
              qz_questions quiz = map (\<lambda>q. \<lparr> questionId = q_id q, score = 1 \<rparr>) (sample_of w M n) \<and>
              length (qz_questions quiz) = n \<and>
              distinct (map questionId (qz_questions quiz)) \<and>
              set (map questionId (qz_questions quiz)) \<subseteq> q_id ` set M) \<and>
         (\<forall>A B. A \<subseteq> set M \<and> card A = n \<and> B \<subseteq> set M \<and> card B = n \<longrightarrow>
            length (filter (\<lambda>w. set (manifest_of (createQuizService d newId (sample_of w) data))
                                  = q_id ` A) seeds) =
            length (filter (\<lambda>w. set (manifest_of (createQuizService d newId (sample_of w) data))
                                  = q_id ` B) seeds))"
proof -
  let ?mk = "\<lambda>q. \<lparr> questionId = q_id q, score = (1::number) \<rparr>"
  have dM: "distinct (map q_id M)" unfolding M matching_questions_def
    using ids by (rule distinct_map_filter)
  then have inj: "inj_on q_id (set M)" by (simp add: distinct_map)
  have qq: "quizQuestions d (sample_of w) (cq_questionsConfig data) =
     (if chapterIds = [] \<or> n = 0 then Inl GenerationParamsRequired
      else if length (sample_of w M n) < n
      then Inl (InsufficientQuestions n (length (sample_of w M n)))
      else Inr (map ?mk (sample_of w M n)))" for w
    unfolding cfg(1) M by (rule quizQuestions_generate[OF cfg(2-4)])
  have part1: "length M < n \<longrightarrow>
            (\<forall>w \<in> set seeds.
               (\<exists>e. createQuizService d newId (sample_of w) data = (Inl e, d)) \<and>
               (\<forall>creator training.
                  create_guards d data = Inr (creator, training) \<and> chapterIds \<noteq> [] \<longrightarrow>
                  createQuizService d newId (sample_of w) data =
                    (Inl (InsufficientQuestions n (length M)), d)))"
  proof (intro impI ballI conjI allI)
    fix w assume lt: "length M < n" and w: "w \<in> set seeds"
    from stage w lt have len: "length (sample_of w M n) = length M" by auto
    have q: "\<exists>e. quizQuestions d (sample_of w) (cq_questionsConfig data) = Inl e"
      using lt len by (simp add: qq)
    then obtain e where e: "quizQuestions d (sample_of w) (cq_questionsConfig data) = Inl e" ..
    show "\<exists>e. createQuizService d newId (sample_of w) data = (Inl e, d)"
      using e by (cases "create_guards d data") (auto simp: createQuizService_def)
    fix creator training
    assume "create_guards d data = Inr (creator, training) \<and> chapterIds \<noteq> []"
    then show "createQuizService d newId (sample_of w) data =
                    (Inl (InsufficientQuestions n (length M)), d)"
      using lt len by (simp add: createQuizService_def qq)
  qed
  have part2: "\<forall>w \<in> set seeds. \<forall>quiz d'.
            createQuizService d newId (sample_of w) data = (Inr quiz, d') \<longrightarrow>
              qz_questions quiz = map ?mk (sample_of w M n) \<and>
              length (qz_questions quiz) = n \<and>
              distinct (map questionId (qz_questions quiz)) \<and>
              set (map questionId (qz_questions quiz)) \<subseteq> q_id ` set M"
  proof (intro ballI allI impI)
    fix w quiz d'
    assume w: "w \<in> set seeds" and c: "createQuizService d newId (sample_of w) data = (Inr quiz, d')"
    from stage w have st: "distinct (sample_of w M n)" "set (sample_of w M n) \<subseteq> set M"
      "length (sample_of w M n) = min n (length M)" by auto
    from c obtain creator questions where
      q: "quizQuestions d (sample_of w) (cq_questionsConfig data) = Inr questions"
      and quiz: "quiz = newQuiz newId creator data questions"
      by (cases rule: create_cases) simp_all
    from q have qs: "questions = map ?mk (sample_of w M n)" and ge: "\<not> length (sample_of w M n) < n"
      by (auto simp: qq split: if_splits)
    have len: "length (sample_of w M n) = n" using ge st(3) by simp
    have "distinct (map q_id (sample_of w M n))"
      using st(1,2) inj by (simp add: distinct_map inj_on_subset)
    then show "qz_questions quiz = map ?mk (sample_of w M n) \<and>
              length (qz_questions quiz) = n \<and>
              distinct (map questionId (qz_questions quiz)) \<and>
              set (map questionId (qz_questions quiz)) \<subseteq> q_id ` set M"
      using st(2) len by (auto simp: quiz qs newQuiz_def comp_def)
  qed
  have part3: "length (filter (\<lambda>w. set (manifest_of (createQuizService d newId (sample_of w) data))
                                  = q_id ` A) seeds) =
            length (filter (\<lambda>w. set (manifest_of (createQuizService d newId (sample_of w) data))
                                  = q_id ` B) seeds)"
    if AB: "A \<subseteq> set M \<and> card A = n \<and> B \<subseteq> set M \<and> card B = n" for A B
  proof (cases "n = 0")
    case True
    with AB have "A = {}" "B = {}" by (auto simp: finite_subset)
    then show ?thesis by simp
  next
    case False
    from AB have "card A \<le> card (set M)" by (intro card_mono) simp_all
    with AB have nM: "n \<le> length M" using card_length[of M] by simp
    have Ane: "A \<noteq> {}" "B \<noteq> {}" using AB False by auto
    define ok where "ok \<longleftrightarrow> (\<exists>creator training. create_guards d data = Inr (creator, training) \<and>
        chapterIds \<noteq> [] \<and>
        QuizSchema_valid (newQuiz newId creator data [\<lparr> questionId = [], score = 1 \<rparr>]))"
    have key: "set (manifest_of (createQuizService d newId (sample_of w) data)) = q_id ` C \<longleftrightarrow>
                 ok \<and> set (sample_of w M n) = C"
      if w: "w \<in> set seeds" and C: "C \<subseteq> set M" "C \<noteq> {}" for w C
    proof -
      from stage w nM have st: "set (sample_of w M n) \<subseteq> set M" "length (sample_of w M n) = n"
        by auto
      have ne: "sample_of w M n \<noteq> []" using st(2) False by auto
      have img: "q_id ` set (sample_of w M n) = q_id ` C \<longleftrightarrow> set (sample_of w M n) = C"
        using inj st(1) C(1) by (rule inj_on_image_eq_iff)
      show ?thesis
      proof (cases "create_guards d data")
        case (Inl e)
        then have "manifest_of (createQuizService d newId (sample_of w) data) = []"
          by (simp add: createQuizService_def manifest_of_def)
        moreover have "\<not> ok" using Inl by (simp add: ok_def)
        ultimately show ?thesis using C(2) by auto
      next
        case (Inr p)
        obtain creator training where p: "p = (creator, training)" by (cases p)
        note g = Inr[unfolded p]
        show ?thesis
        proof (cases "chapterIds = []")
          case True
          then have "manifest_of (createQuizService d newId (sample_of w) data) = []"
            using g by (simp add: createQuizService_def manifest_of_def qq)
          moreover have "\<not> ok" using True by (simp add: ok_def)
          ultimately show ?thesis using C(2) by auto
        next
          case ch: False
          have v: "QuizSchema_valid (newQuiz newId creator data (map ?mk (sample_of w M n))) =
                   QuizSchema_valid (newQuiz newId creator data [\<lparr> questionId = [], score = 1 \<rparr>])"
            by (rule valid_generated) (simp_all add: ne generated_scores)
          have okv: "ok \<longleftrightarrow> QuizSchema_valid (newQuiz newId creator data [\<lparr> questionId = [], score = 1 \<rparr>])"
            using g ch by (simp add: ok_def)
          show ?thesis
          proof (cases ok)
            case True
            then have "manifest_of (createQuizService d newId (sample_of w) data) =
                         map q_id (sample_of w M n)"
              using g ch \<open>n \<noteq> 0\<close> st(2) v okv
              by (simp add: createQuizService_def manifest_of_def qq Let_def newQuiz_def comp_def)
            with True img show ?thesis by simp
          next
            case nok: False
            then have "manifest_of (createQuizService d newId (sample_of w) data) = []"
              using g ch \<open>n \<noteq> 0\<close> st(2) v okv
              by (simp add: createQuizService_def manifest_of_def qq Let_def)
            with nok C(2) show ?thesis by auto
          qed
        qed
      qed
    qed
    have fA: "filter (\<lambda>w. set (manifest_of (createQuizService d newId (sample_of w) data)) = q_id ` A) seeds
            = filter (\<lambda>w. ok \<and> set (sample_of w M n) = A) seeds"
      using AB Ane by (intro filter_cong refl key) simp_all
    have fB: "filter (\<lambda>w. set (manifest_of (createQuizService d newId (sample_of w) data)) = q_id ` B) seeds
            = filter (\<lambda>w. ok \<and> set (sample_of w M n) = B) seeds"
      using AB Ane by (intro filter_cong refl key) simp_all
    show ?thesis
    proof (cases ok)
      case True
      with uniform AB show ?thesis unfolding fA fB by simp
    next
      case False
      then show ?thesis unfolding fA fB by simp
    qed
  qed
  from part1 part2 part3 show ?thesis by blast
qed

section \<open>The worked example, evaluated\<close>

lemmas ex_ids = ex_alice_id_def ex_bob_id_def ex_carol_id_def ex_quiz_id_def ex_training_id_def
  ex_session_id_def ex_chapter_id_def ex_q1_id_def ex_q2_id_def ex_q3_id_def ex_q4_id_def
  ex_session2_id_def

lemmas ex_defs = ex_alice_def ex_bob_def ex_carol_def ex_choice_def ex_question_def ex_q1_def
  ex_q2_def ex_q3_def ex_q4_def ex_quiz_def ex_training_def ex_db0_def ex_start_def
  ex_placeholder_def ex_session_def ex_db1_def ex_answer_def ex_submission_def
  ex_graded_response_def ex_graded_def ex_notification_def ex_db2_def
  ex_dup_submission_def ex_dup_graded_def ex_db_dup_def ex_request_user_def ex_db_nocreator_def
  ex_db_nocreator_graded_def ex_wrong_submission_def ex_failed_def ex_db_wrong_def ex_db_race_def
  ex_object_user_def ex_repeated_submission_def ex_repeated_graded_def ex_db_repeated_def

subsection \<open>Doubles\<close>

lemma floor_numeral_quotient [simp]:
  "\<lfloor>numeral a / numeral b :: rat\<rfloor> = numeral a div numeral b"
  using floor_divide_of_int_eq[of "numeral a" "numeral b", where ?'a = rat] by simp

lemmas fl_eval = fl_def round_pos_def round_half_even_def exponent_def exponent_up.simps
  exponent_down.simps pow2_def Let_def

lemma fl_integers:
  "fl 0 = Finite 0" "fl 1 = Finite 1" "fl 2 = Finite 2" "fl 3 = Finite 3" "fl 4 = Finite 4" "fl 5 = Finite 5"
  "fl 10 = Finite 10" "fl 12 = Finite 12" "fl 15 = Finite 15" "fl 20 = Finite 20"
  "fl 25 = Finite 25" "fl 30 = Finite 30" "fl 300 = Finite 300"
  by (simp_all add: fl_eval)

lemma fl_quarters:
  "fl (1 / 4) = Finite (1 / 4)" "fl (3 / 4) = Finite (3 / 4)" "fl (5 / 4) = Finite (5 / 4)"
  by (simp_all add: fl_eval)

text \<open>The literal \<^verbatim>\<open>0.7\<close> lies below seven tenths.\<close>

lemma fl_seven_tenths: "fl (7 / 10) = Finite (6305039478318694 / 2 ^ 53)"
  by (simp add: fl_eval)

lemmas fl_values = fl_integers fl_quarters fl_seven_tenths

text \<open>Two scores of \<^verbatim>\<open>0.1\<close> and \<^verbatim>\<open>0.2\<close> add up to \<^verbatim>\<open>0.30000000000000004\<close>, the double above
  \<^verbatim>\<open>0.3\<close>.\<close>

lemma tenth_plus_fifth:
  "js_sum [1 / 10, 2 / 10] = Finite (5404319552844596 / 2 ^ 54)"
  "fl (3 / 10) = Finite (5404319552844595 / 2 ^ 54)"
proof -
  have a: "fl (1 / 10) = Finite (3602879701896397 / 2 ^ 55)" by (simp add: fl_eval)
  have b: "fl (2 / 10) = Finite (3602879701896397 / 2 ^ 54)" by (simp add: fl_eval)
  have c: "js_add (Finite 0) (Finite (3602879701896397 / 2 ^ 55)) =
             Finite (3602879701896397 / 2 ^ 55)"
    by (simp add: fl_eval)
  have d: "js_add (Finite (3602879701896397 / 2 ^ 55)) (Finite (3602879701896397 / 2 ^ 54)) =
             Finite (5404319552844596 / 2 ^ 54)"
    by (simp add: fl_eval)
  show "js_sum [1 / 10, 2 / 10] = Finite (5404319552844596 / 2 ^ 54)"
    unfolding js_sum_def js_sum_from_Cons js_sum_from_Nil a b c d ..
  show "fl (3 / 10) = Finite (5404319552844595 / 2 ^ 54)" by (simp add: fl_eval)
qed

lemmas double_defs = js_mul_def js_div_def js_ge_def js_lt_def signed_zero_def signed_inf_def

text \<open>Seven points out of ten on a scale of 12: the quotient is rounded down to the
  literal \<^verbatim>\<open>0.7\<close>, the product \<^verbatim>\<open>8.399999999999999\<close> lies below \<^verbatim>\<open>8.4\<close>, and its quotient by 12
  lies below the threshold.\<close>

lemma seven_of_ten_on_scale_12:
  "finalCalculatedScore ex_scale12 (Finite 7) = Finite (4728779608739020 / 2 ^ 49)"
  "fl (42 / 5) = Finite (4728779608739021 / 2 ^ 49)"
  "js_div (finalCalculatedScore ex_scale12 (Finite 7)) (Finite 12) =
     Finite (6305039478318693 / 2 ^ 53)"
  "passStatus ex_scale12 (finalCalculatedScore ex_scale12 (Finite 7)) = failed"
proof -
  have q: "js_div (Finite 7) (Finite 10) = Finite (6305039478318694 / 2 ^ 53)"
    by (simp add: js_div_def fl_seven_tenths)
  have m: "js_mul (Finite (6305039478318694 / 2 ^ 53)) (Finite 12) =
             Finite (4728779608739020 / 2 ^ 49)"
    by (simp add: js_mul_def fl_eval)
  show f: "finalCalculatedScore ex_scale12 (Finite 7) = Finite (4728779608739020 / 2 ^ 49)"
    using q m by (simp add: finalCalculatedScore_def ex_scale12_def js_lt_def fl_integers)
  show "fl (42 / 5) = Finite (4728779608739021 / 2 ^ 49)"
    by (simp add: fl_eval)
  show d: "js_div (finalCalculatedScore ex_scale12 (Finite 7)) (Finite 12) =
     Finite (6305039478318693 / 2 ^ 53)"
    unfolding f by (simp add: js_div_def fl_eval)
  show "passStatus ex_scale12 (finalCalculatedScore ex_scale12 (Finite 7)) = failed"
    using d by (simp add: passStatus_def passThreshold_def fl_seven_tenths js_ge_def js_lt_def
        ex_scale12_def fl_integers)
qed

subsection \<open>The calls of the example\<close>

lemmas start_defs = startQuizSessionService_def save_and_return_def newSession_def
  not_accessible_def attempts_exceeded_def countDocuments_def populate_questions_def findById_def
  QuizSessionSchema_valid_def QuestionResponseSchema_valid_def initialResponse_def
  cast_response_def clientQuestion_def populate_session_def populate_question_def
  js_ge_def js_lt_def fl_values

lemmas submit_defs = submitQuizSessionService_def after_read_def submit_read_def submit_write_def
  notify_graded_def findByIdAndUpdate_def session_update_def update_valid_def
  QuestionResponseSchema_valid_def createNotificationService_def Types_ObjectId_isValid_def
  is_hex_def recipients_def set_add_def passStatus_def passThreshold_def Object_toString_def
  finalCalculatedScore_def quizQuestionsMap_def updatedResponse_def grade_def grade_qcm_def
  grade_calcul_def correctChoiceTexts_def userAnswers_def js_or_def int_toString_def
  populate_questions_def findById_def populate_session_def populate_question_def
  double_defs fl_values

lemma ex_start_eval:
  "startQuizSessionService ex_db0 ex_session_id 50 ex_start =
     (Inr (populate_session ex_db1 ex_session), ex_db1)"
  by (simp add: start_defs ex_defs ex_ids Let_def)

text \<open>The student submits under their own id, and is refused.\<close>

lemma ex_owner_refused:
  "submitQuizSessionService ex_db1 ex_session_id ex_submission ex_alice_id =
     (Inl NotAuthorizedToSubmit, ex_db1)"
  by (simp add: submit_defs ex_defs ex_ids Let_def)


lemma ex_start_again_eval:
  "startQuizSessionService ex_db1 ex_session2_id 60 ex_start = (Inl (AttemptsExceeded 1), ex_db1)"
  by (simp add: start_defs ex_defs ex_ids Let_def)








lemma ex_fresh: "ex_session_id \<notin> set (map s_id (QuizSession_docs ex_db0))"
  by (simp add: ex_db0_def)

text \<open>The four views the example returns.\<close>

theorem startSession_redacted_witness:
  "startQuizSessionService ex_db0 ex_session_id 50 ex_start =
     (Inr (populate_session ex_db1 ex_session), ex_db1) \<and>
   ex_session_id \<notin> set (map s_id (QuizSession_docs ex_db0)) \<and>
   length (s_responses (populate_session ex_db1 ex_session)) = 4 \<and>
   list_all (\<lambda>r. \<exists>v. r_question r = QView v \<and>
      list_all (\<lambda>k. k \<notin> set (field_names v)) sensitive_fields \<and>
      list_all (\<lambda>c. top_fields c = [''text'']) (choices_of v))
     (s_responses (populate_session ex_db1 ex_session))"
proof -
  have "length (s_responses (populate_session ex_db1 ex_session)) = 4"
    by (simp add: populate_session_def ex_session_def)
  then show ?thesis
    using startSession_redacted[OF ex_start_eval ex_fresh] ex_start_eval ex_fresh
    unfolding list_all_iff by blast
qed



lemma ex_fresh2: "ex_session2_id \<notin> set (map s_id (QuizSession_docs ex_db1))"
  by (simp add: ex_db1_def ex_db0_def ex_session_def ex_ids)

lemma ex_find_user: "findById u_id (User_docs d) (sd_user ex_start) = Some ex_alice"
  if "User_docs d = [ex_alice, ex_bob, ex_carol]"
  using that by (simp add: findById_def ex_start_def ex_alice_def)

lemma ex_find_quiz: "findById qz_id (Quiz_docs d) (sd_quizId ex_start) = Some ex_quiz"
  if "Quiz_docs d = [ex_quiz]"
  using that by (simp add: findById_def ex_start_def ex_quiz_def)

lemma ex_allowed: "qz_allowedAttempts ex_quiz = Some 1"
  by (simp add: ex_quiz_def)

text \<open>The first attempt of the example is numbered 1; the second is refused.\<close>

theorem startSession_attempts_witness:
  "findById u_id (User_docs ex_db0) (sd_user ex_start) = Some ex_alice \<and>
   findById qz_id (Quiz_docs ex_db0) (sd_quizId ex_start) = Some ex_quiz \<and>
   qz_allowedAttempts ex_quiz = Some 1 \<and>
   countDocuments ex_db0 (sd_user ex_start) (sd_quizId ex_start) = 0 \<and>
   startQuizSessionService ex_db0 ex_session_id 50 ex_start =
     (Inr (populate_session ex_db1 ex_session), ex_db1) \<and>
   s_attemptNumber (populate_session ex_db1 ex_session) = 1 \<and>
   QuizSession_docs ex_db1 = QuizSession_docs ex_db0 @ [ex_session] \<and>
   countDocuments ex_db1 (sd_user ex_start) (sd_quizId ex_start) = 1 \<and>
   \<not> not_accessible ex_alice ex_quiz (sd_user ex_start) \<and>
   startQuizSessionService ex_db1 ex_session2_id 60 ex_start = (Inl (AttemptsExceeded 1), ex_db1)"
proof -
  have u0: "findById u_id (User_docs ex_db0) (sd_user ex_start) = Some ex_alice"
    by (rule ex_find_user) (simp add: ex_db0_def)
  have q0: "findById qz_id (Quiz_docs ex_db0) (sd_quizId ex_start) = Some ex_quiz"
    by (rule ex_find_quiz) (simp add: ex_db0_def)
  have u1: "findById u_id (User_docs ex_db1) (sd_user ex_start) = Some ex_alice"
    by (rule ex_find_user) (simp add: ex_db1_def ex_db0_def)
  have q1: "findById qz_id (Quiz_docs ex_db1) (sd_quizId ex_start) = Some ex_quiz"
    by (rule ex_find_quiz) (simp add: ex_db1_def ex_db0_def)
  have c0: "countDocuments ex_db0 (sd_user ex_start) (sd_quizId ex_start) = 0"
    by (simp add: countDocuments_def ex_db0_def)
  have c1: "countDocuments ex_db1 (sd_user ex_start) (sd_quizId ex_start) = 1"
    by (simp add: countDocuments_def ex_db1_def ex_db0_def ex_session_def ex_start_def)
  have acc: "\<not> not_accessible ex_alice ex_quiz (sd_user ex_start)"
    by (simp add: not_accessible_def ex_quiz_def)
  have docs: "QuizSession_docs ex_db1 = QuizSession_docs ex_db0 @ [ex_session]"
    by (simp add: ex_db1_def ex_db0_def)
  note t0 = startSession_attempts[OF u0 q0 ex_allowed ex_fresh, of 50]
  note t1 = startSession_attempts[OF u1 q1 ex_allowed ex_fresh2, of 60]
  have a: "s_attemptNumber (populate_session ex_db1 ex_session) = 1"
    using t0 ex_start_eval c0 by simp
  have b: "startQuizSessionService ex_db1 ex_session2_id 60 ex_start = (Inl (AttemptsExceeded 1), ex_db1)"
    using t1 c1 acc by simp
  from u0 q0 ex_allowed c0 ex_start_eval a docs c1 acc b show ?thesis by blast
qed





lemmas quiz_defs = createQuizService_def create_guards_def quizQuestions_def
  generateQuestionsForQuiz_def matching_questions_def find_questions_in_def newQuiz_def
  QuizSchema_valid_def number_or_null_def updateQuizService_def publishQuizService_def
  save_quiz_def assign_fields_def isAdminOrManager_def changesToSensitiveFields_def
  Types_ObjectId_isValid_def is_hex_def findById_def

lemmas ex_quiz_defs = ex_revision_id_def ex_revision_data_def ex_revision_quiz_def ex_admin_def
  ex_update_def ex_first_def ex_operations_def ex_generated_id_def ex_generate_def ex_sample_def
  ex_seeds_def

lemma ex_create_revision:
  "createQuizService ex_db0 ex_revision_id ex_first ex_revision_data =
     (Inr (ex_revision_quiz ''Revision''),
      ex_db0\<lparr> Quiz_docs := [ex_quiz, ex_revision_quiz ''Revision''],
              Training_docs := [ex_training\<lparr> t_quizzes := [ex_quiz_id, ex_revision_id] \<rparr>] \<rparr>)"
  by (simp add: quiz_defs ex_quiz_defs ex_defs ex_ids Let_def)

lemma ex_run:
  "Quiz_docs (run ex_db0 ex_operations) = [ex_quiz, ex_revision_quiz ''Relecture'']"
  by (simp add: run_def quiz_defs ex_quiz_defs ex_defs ex_ids Let_def)


lemma ex_db0_invariant: "\<forall>q \<in> set (Quiz_docs ex_db0). \<not> published_revision q"
  by (simp add: ex_db0_def published_revision_def ex_quiz_def)

text \<open>
  A student creates a revision quiz, an administrator renames it and tries to publish it.
\<close>

theorem revision_never_published_witness:
  "list_all (\<lambda>q. \<not> published_revision q) (Quiz_docs ex_db0) \<and>
   Quiz_docs (run ex_db0 ex_operations) = [ex_quiz, ex_revision_quiz ''Relecture''] \<and>
   qz_quizType (ex_revision_quiz ''Relecture'') = REVISION \<and>
   \<not> published_revision (ex_revision_quiz ''Relecture'') \<and>
   fst (createQuizService ex_db0 ex_revision_id ex_first ex_revision_data) =
     Inr (ex_revision_quiz ''Revision'') \<and>
   \<not> qz_isPublished (ex_revision_quiz ''Revision'') \<and>
   publishQuizService (snd (createQuizService ex_db0 ex_revision_id ex_first ex_revision_data))
       ex_revision_id True ex_admin 70 =
     (Inl RevisionCannotBePublished,
      snd (createQuizService ex_db0 ex_revision_id ex_first ex_revision_data))"
proof -
  note t = revision_never_published[OF ex_db0_invariant, of ex_operations]
  let ?d1 = "snd (createQuizService ex_db0 ex_revision_id ex_first ex_revision_data)"
  have inv1: "\<forall>q \<in> set (Quiz_docs ?d1). \<not> published_revision q"
    unfolding ex_create_revision
    by (simp add: published_revision_def ex_quiz_def ex_revision_quiz_def)
  have f: "findById qz_id (Quiz_docs ?d1) ex_revision_id = Some (ex_revision_quiz ''Revision'')"
    unfolding ex_create_revision
    by (simp add: findById_def ex_quiz_def ex_revision_quiz_def ex_ids ex_revision_id_def)
  have k: "qz_quizType (ex_revision_quiz ''Revision'') = REVISION"
    "qz_quizType (ex_revision_quiz ''Relecture'') = REVISION"
    by (simp_all add: ex_revision_quiz_def)
  have v: "Types_ObjectId_isValid ex_revision_id \<and> isAdminOrManager ex_admin"
    by (simp add: Types_ObjectId_isValid_def is_hex_def ex_revision_id_def isAdminOrManager_def
        ex_admin_def)
  from revision_never_published[OF inv1, of "[]"] f k(1) v
  have p: "publishQuizService ?d1 ex_revision_id True ex_admin 70 = (Inl RevisionCannotBePublished, ?d1)"
    by blast
  from t ex_create_revision
  have c: "\<not> qz_isPublished (ex_revision_quiz ''Revision'')" by blast
  from t have r: "\<not> published_revision (ex_revision_quiz ''Relecture'')"
    by (simp add: ex_run)
  from ex_db0_invariant have i: "list_all (\<lambda>q. \<not> published_revision q) (Quiz_docs ex_db0)"
    by (simp add: list_all_iff)
  from i ex_run k(2) r c p show ?thesis by (simp add: ex_create_revision)
qed

lemma ex_matching:
  "matching_questions ex_db0 [ex_chapter_id] (Some medium) = [ex_q1, ex_q2, ex_q3, ex_q4]"
  by (simp add: matching_questions_def ex_db0_def ex_q1_def ex_q2_def ex_q3_def ex_q4_def
      ex_question_def)

lemma ex_question_ids: "distinct (map q_id (Question_docs ex_db0))"
  by (simp add: ex_db0_def ex_q1_def ex_q2_def ex_q3_def ex_q4_def ex_question_def ex_ids)

lemma ex_questions_distinct: "distinct [ex_q1, ex_q2, ex_q3, ex_q4]"
  using ex_question_ids by (auto simp: ex_db0_def)

lemma ex_stage:
  "\<forall>w \<in> set (ex_seeds n). distinct (ex_sample w [ex_q1, ex_q2, ex_q3, ex_q4] n) \<and>
      set (ex_sample w [ex_q1, ex_q2, ex_q3, ex_q4] n) \<subseteq> set [ex_q1, ex_q2, ex_q3, ex_q4] \<and>
      length (ex_sample w [ex_q1, ex_q2, ex_q3, ex_q4] n) = min n (length [ex_q1, ex_q2, ex_q3, ex_q4])"
proof
  fix w assume "w \<in> set (ex_seeds n)"
  then have w: "w = 0 \<or> (n = 1 \<and> w < 4)" by (auto simp: ex_seeds_def split: if_splits)
  have "distinct (take n (drop w [ex_q1, ex_q2, ex_q3, ex_q4]))"
    using ex_questions_distinct by (intro distinct_take distinct_drop)
  moreover have "set (take n (drop w [ex_q1, ex_q2, ex_q3, ex_q4])) \<subseteq> set [ex_q1, ex_q2, ex_q3, ex_q4]"
    using set_take_subset set_drop_subset by fast
  moreover have "length (take n (drop w [ex_q1, ex_q2, ex_q3, ex_q4])) = min n (length [ex_q1, ex_q2, ex_q3, ex_q4])"
    using w by auto
  ultimately show "distinct (ex_sample w [ex_q1, ex_q2, ex_q3, ex_q4] n) \<and>
      set (ex_sample w [ex_q1, ex_q2, ex_q3, ex_q4] n) \<subseteq> set [ex_q1, ex_q2, ex_q3, ex_q4] \<and>
      length (ex_sample w [ex_q1, ex_q2, ex_q3, ex_q4] n) = min n (length [ex_q1, ex_q2, ex_q3, ex_q4])"
    by (simp add: ex_sample_def)
qed

lemma ex_count_one:
  assumes "a \<in> set [ex_q1, ex_q2, ex_q3, ex_q4]"
  shows "length (filter (\<lambda>w. set (ex_sample w [ex_q1, ex_q2, ex_q3, ex_q4] 1) = {a}) (ex_seeds 1)) = 1"
proof -
  have ne: "ex_q1 \<noteq> ex_q2" "ex_q1 \<noteq> ex_q3" "ex_q1 \<noteq> ex_q4" "ex_q2 \<noteq> ex_q3" "ex_q2 \<noteq> ex_q4"
    "ex_q3 \<noteq> ex_q4"
    using ex_questions_distinct by auto
  from assms consider "a = ex_q1" | "a = ex_q2" | "a = ex_q3" | "a = ex_q4" by auto
  then show ?thesis
    using ne by cases (auto simp: ex_sample_def ex_seeds_def)
qed

lemma ex_uniform_one:
  "\<forall>A B. A \<subseteq> set [ex_q1, ex_q2, ex_q3, ex_q4] \<and> card A = 1 \<and>
         B \<subseteq> set [ex_q1, ex_q2, ex_q3, ex_q4] \<and> card B = 1 \<longrightarrow>
     length (filter (\<lambda>w. set (ex_sample w [ex_q1, ex_q2, ex_q3, ex_q4] 1) = A) (ex_seeds 1)) =
     length (filter (\<lambda>w. set (ex_sample w [ex_q1, ex_q2, ex_q3, ex_q4] 1) = B) (ex_seeds 1))"
proof (intro allI impI)
  fix A B
  assume h: "A \<subseteq> set [ex_q1, ex_q2, ex_q3, ex_q4] \<and> card A = 1 \<and>
         B \<subseteq> set [ex_q1, ex_q2, ex_q3, ex_q4] \<and> card B = 1"
  then obtain a b where ab: "A = {a}" "B = {b}" by (auto simp: card_1_singleton_iff)
  with h have "a \<in> set [ex_q1, ex_q2, ex_q3, ex_q4]" "b \<in> set [ex_q1, ex_q2, ex_q3, ex_q4]" by auto
  from ex_count_one[OF this(1)] ex_count_one[OF this(2)] ab
  show "length (filter (\<lambda>w. set (ex_sample w [ex_q1, ex_q2, ex_q3, ex_q4] 1) = A) (ex_seeds 1)) =
     length (filter (\<lambda>w. set (ex_sample w [ex_q1, ex_q2, ex_q3, ex_q4] 1) = B) (ex_seeds 1))"
    by simp
qed

lemma ex_uniform_ten:
  "\<forall>A B. A \<subseteq> set [ex_q1, ex_q2, ex_q3, ex_q4] \<and> card A = 10 \<and>
         B \<subseteq> set [ex_q1, ex_q2, ex_q3, ex_q4] \<and> card B = 10 \<longrightarrow>
     length (filter (\<lambda>w. set (ex_sample w [ex_q1, ex_q2, ex_q3, ex_q4] 10) = A) (ex_seeds 10)) =
     length (filter (\<lambda>w. set (ex_sample w [ex_q1, ex_q2, ex_q3, ex_q4] 10) = B) (ex_seeds 10))"
proof (intro allI impI)
  fix A B
  assume h: "A \<subseteq> set [ex_q1, ex_q2, ex_q3, ex_q4] \<and> card A = 10 \<and>
         B \<subseteq> set [ex_q1, ex_q2, ex_q3, ex_q4] \<and> card B = 10"
  then have "card A \<le> card (set [ex_q1, ex_q2, ex_q3, ex_q4])" by (intro card_mono) simp_all
  also have "\<dots> \<le> 4" using card_length[of "[ex_q1, ex_q2, ex_q3, ex_q4]"] by simp
  finally have False using h by simp
  then show "length (filter (\<lambda>w. set (ex_sample w [ex_q1, ex_q2, ex_q3, ex_q4] 10) = A) (ex_seeds 10)) =
     length (filter (\<lambda>w. set (ex_sample w [ex_q1, ex_q2, ex_q3, ex_q4] 10) = B) (ex_seeds 10))" ..
qed

lemma ex_generate_config:
  "cq_questionsConfig (ex_generate n) =
     Some \<lparr> qc_method = generate, qc_chapterIds = Some [ex_chapter_id],
            qc_numberOfQuestions = Some n, qc_difficulty = Some medium,
            qc_selectedQuestionIdsWithScores = None \<rparr>"
  by (simp add: ex_generate_def)

lemma ex_generate_guards:
  "create_guards ex_db0 (ex_generate n) = Inr (ex_bob, ex_training)"
  by (simp add: create_guards_def findById_def ex_generate_def ex_db0_def ex_alice_def ex_bob_def
      ex_carol_def ex_training_def ex_ids)

lemma ex_generate_third:
  "createQuizService ex_db0 ex_generated_id (ex_sample 2) (ex_generate 1) =
     (Inr (newQuiz ex_generated_id ex_bob (ex_generate 1) [\<lparr> questionId = ex_q3_id, score = 1 \<rparr>]),
      ex_db0\<lparr> Quiz_docs :=
                [ex_quiz, newQuiz ex_generated_id ex_bob (ex_generate 1)
                            [\<lparr> questionId = ex_q3_id, score = 1 \<rparr>]],
              Training_docs := [ex_training\<lparr> t_quizzes := [ex_quiz_id, ex_generated_id] \<rparr>] \<rparr>)"
  by (simp add: quiz_defs ex_quiz_defs ex_defs ex_ids Let_def)

text \<open>
  Ten questions asked of the four of the chapter; and one question, drawn on four seeds.
\<close>

theorem generate_sample_witness:
  "matching_questions ex_db0 [ex_chapter_id] (Some medium) = [ex_q1, ex_q2, ex_q3, ex_q4] \<and>
   createQuizService ex_db0 ex_generated_id (ex_sample 0) (ex_generate 10) =
     (Inl (InsufficientQuestions 10 4), ex_db0) \<and>
   fst (createQuizService ex_db0 ex_generated_id (ex_sample 2) (ex_generate 1)) =
     Inr (newQuiz ex_generated_id ex_bob (ex_generate 1) [\<lparr> questionId = ex_q3_id, score = 1 \<rparr>]) \<and>
   length (filter (\<lambda>w. set (manifest_of
        (createQuizService ex_db0 ex_generated_id (ex_sample w) (ex_generate 1))) = q_id ` {ex_q1})
      (ex_seeds 1)) =
   length (filter (\<lambda>w. set (manifest_of
        (createQuizService ex_db0 ex_generated_id (ex_sample w) (ex_generate 1))) = q_id ` {ex_q3})
      (ex_seeds 1))"
proof -
  let ?config = "\<lambda>n. \<lparr> qc_method = generate, qc_chapterIds = Some [ex_chapter_id],
            qc_numberOfQuestions = Some n, qc_difficulty = Some medium,
            qc_selectedQuestionIdsWithScores = None \<rparr>"
  let ?M = "[ex_q1, ex_q2, ex_q3, ex_q4]"
  have M: "?M = matching_questions ex_db0 [ex_chapter_id] (qc_difficulty (?config n))" for n
    by (simp add: ex_matching)
  note ten = generate_sample[where sample_of = ex_sample and seeds = "ex_seeds 10" and n = 10
      and data = "ex_generate 10" and config = "?config 10" and chapterIds = "[ex_chapter_id]"
      and d = ex_db0 and M = ?M and newId = ex_generated_id,
      OF ex_generate_config _ _ _ M ex_question_ids ex_stage ex_uniform_ten, simplified]
  note one = generate_sample[where sample_of = ex_sample and seeds = "ex_seeds 1" and n = 1
      and data = "ex_generate 1" and config = "?config 1" and chapterIds = "[ex_chapter_id]"
      and d = ex_db0 and M = ?M and newId = ex_generated_id,
      OF ex_generate_config _ _ _ M ex_question_ids ex_stage ex_uniform_one, simplified]
  have a: "createQuizService ex_db0 ex_generated_id (ex_sample 0) (ex_generate 10) =
     (Inl (InsufficientQuestions 10 4), ex_db0)"
    using ten ex_generate_guards[of 10] by (simp add: ex_seeds_def)
  have b: "length (filter (\<lambda>w. set (manifest_of
        (createQuizService ex_db0 ex_generated_id (ex_sample w) (ex_generate 1))) = q_id ` {ex_q1})
      (ex_seeds 1)) =
   length (filter (\<lambda>w. set (manifest_of
        (createQuizService ex_db0 ex_generated_id (ex_sample w) (ex_generate 1))) = q_id ` {ex_q3})
      (ex_seeds 1))"
    using one by (elim conjE) (drule spec[of _ "{ex_q1}"], drule spec[of _ "{ex_q3}"], simp)
  from a b ex_matching ex_generate_third show ?thesis by simp
qed

end
